theory Spec2Isabelle
  imports Complex_Main
begin

section \<open>JavaScript values, errors and results\<close>

text \<open>
  The dashboard is a Hono application (\<^verbatim>\<open>src/src/index.js\<close>, three revisions in one
  file, and \<^verbatim>\<open>src/unnamed/part_000\<close>). A JavaScript number is a finite rational or
  one of the three special values; the signed zero is not modelled.
\<close>

datatype js_num = Fin rat | NaN | PosInf | NegInf

datatype js_value = JUndefined | JNull | JBool bool | JNum js_num | JStr string

text \<open>What a \<^verbatim>\<open>throw\<close> or a rejected promise carries.\<close>

datatype js_error =
    TypeError
  | DatabaseError
  | IllegalArguments
  | HttpError nat
  | NetworkError
  | TimeoutError
  | SyntaxError
  | JwtTokenInvalid
  | JwtTokenExpired
  | JwtSignatureMismatched
  | KvError

text \<open>JavaScript truthiness: the test of \<^verbatim>\<open>if (x)\<close>, \<^verbatim>\<open>!x\<close> and \<^verbatim>\<open>x || y\<close>.\<close>

fun truthy :: "js_value \<Rightarrow> bool" where
  "truthy JUndefined = False"
| "truthy JNull = False"
| "truthy (JBool b) = b"
| "truthy (JNum n) = (n \<noteq> NaN \<and> n \<noteq> Fin 0)"
| "truthy (JStr s) = (s \<noteq> [])"

text \<open>
  A string that may be missing is a \<open>string option\<close>: \<^verbatim>\<open>c.req.query(k)\<close>,
  \<^verbatim>\<open>getCookie(c, k)\<close> and a field of the parsed body are a string or \<^verbatim>\<open>undefined\<close>
  (\<open>to_js\<close>), a KV \<^verbatim>\<open>get\<close> resolves to the stored string or to \<^verbatim>\<open>null\<close> (\<open>or_null\<close>).
\<close>

definition to_js :: "string option \<Rightarrow> js_value" where
  "to_js s = (case s of None \<Rightarrow> JUndefined | Some t \<Rightarrow> JStr t)"

definition or_null :: "string option \<Rightarrow> js_value" where
  "or_null s = (case s of None \<Rightarrow> JNull | Some t \<Rightarrow> JStr t)"

text \<open>Sequencing of calls that may throw, and \<^verbatim>\<open>try { ... } catch (error) { ... }\<close>.\<close>

definition bindE :: "js_error + 'a \<Rightarrow> ('a \<Rightarrow> js_error + 'b) \<Rightarrow> js_error + 'b" where
  "bindE m f = (case m of Inl e \<Rightarrow> Inl e | Inr x \<Rightarrow> f x)"

definition try_catch :: "js_error + 'a \<Rightarrow> (js_error \<Rightarrow> js_error + 'a) \<Rightarrow> js_error + 'a" where
  "try_catch body handler = (case body of Inl e \<Rightarrow> handler e | Inr x \<Rightarrow> Inr x)"

section \<open>The database binding and \<^verbatim>\<open>fetchData\<close>\<close>

text \<open>
  A result row is a JavaScript object: an association list from column names to values;
  reading a column the row lacks gives \<^verbatim>\<open>undefined\<close>.
\<close>

type_synonym row = "(string \<times> js_value) list"

definition field :: "row \<Rightarrow> string \<Rightarrow> js_value" where
  "field r k = (case map_of r k of None \<Rightarrow> JUndefined | Some v \<Rightarrow> v)"

text \<open>
  \<^verbatim>\<open>env.DB\<close> is the external D1 binding. The code calls \<^verbatim>\<open>prepare\<close>, \<^verbatim>\<open>bind\<close> and
  \<^verbatim>\<open>all\<close> on it; each may throw. \<^verbatim>\<open>all\<close> resolves to an object whose \<^verbatim>\<open>results\<close>
  may be missing. The statement type \<open>'st\<close> is the binding's own.
\<close>

record d1_result =
  results :: "row list option"

record 'st d1_database =
  d1_prepare :: "string \<Rightarrow> js_error + 'st"
  d1_bind :: "'st \<Rightarrow> js_value list \<Rightarrow> js_error + 'st"
  d1_all :: "'st \<Rightarrow> js_error + d1_result"

section \<open>Bindings, requests, contexts and responses\<close>

text \<open>
  A KV namespace (\<^verbatim>\<open>DMARC_DOMAINS\<close>, \<^verbatim>\<open>HUZZANDBUZZ_ACCOUNTS\<close>) is a map from keys to
  string values. The binding refuses a key that is empty, that is \<^verbatim>\<open>.\<close> or \<^verbatim>\<open>..\<close>, or
  that is longer than 512 bytes: \<^verbatim>\<open>get\<close> and \<^verbatim>\<open>put\<close> then reject, and the code that
  awaits them throws. On any other key \<^verbatim>\<open>get\<close> resolves to the stored string, or to
  \<^verbatim>\<open>null\<close> when nothing is stored, and \<^verbatim>\<open>put\<close> stores. A string is its list of bytes.
\<close>

type_synonym kv_namespace = "string \<rightharpoonup> string"

definition kv_key_ok :: "string \<Rightarrow> bool" where
  "kv_key_ok k = (k \<noteq> [] \<and> k \<noteq> ''.'' \<and> k \<noteq> ''..'' \<and> length k \<le> 512)"

definition kv_get :: "kv_namespace \<Rightarrow> string \<Rightarrow> js_error + string option" where
  "kv_get kv k = (if kv_key_ok k then Inr (kv k) else Inl KvError)"

definition kv_put :: "kv_namespace \<Rightarrow> string \<Rightarrow> string \<Rightarrow> js_error + kv_namespace" where
  "kv_put kv k v = (if kv_key_ok k then Inr (kv(k \<mapsto> v)) else Inl KvError)"

text \<open>\<^verbatim>\<open>c.env\<close>: the bindings of the worker (each revision uses the ones it names).\<close>

record 'st env =
  DB :: "'st d1_database"
  DMARC_DOMAINS :: kv_namespace
  HUZZANDBUZZ_ACCOUNTS :: kv_namespace
  JWT_SECRET_KEY :: string

text \<open>
  What \<^verbatim>\<open>c.req.parseBody()\<close> gives for the forms of the login and register pages: the
  \<^verbatim>\<open>customerId\<close> field, and the \<^verbatim>\<open>password\<close> field when one was posted. (A body without
  \<^verbatim>\<open>customerId\<close> would pass \<^verbatim>\<open>undefined\<close> to the KV binding as a key; what the binding
  does with it is not in the source and is left out.)
\<close>

record form =
  form_customerId :: string
  form_password :: "string option"

text \<open>
  A request: its query parameters, its cookies and its parsed form body. \<open>now_ms\<close> is
  what \<^verbatim>\<open>Date.now()\<close> reads while the request is handled, \<open>entropy\<close> what the salt
  generator draws.
\<close>

record request =
  req_query :: "string \<rightharpoonup> string"
  req_cookies :: "string \<rightharpoonup> string"
  req_body :: form
  now_ms :: nat
  entropy :: string

text \<open>Hono's context \<^verbatim>\<open>c\<close>: the bindings, the request and the variables of \<^verbatim>\<open>c.set\<close>.\<close>

record 'st ctx =
  c_env :: "'st env"
  c_req :: request
  c_vars :: "string \<rightharpoonup> js_value"

definition c_set :: "'st ctx \<Rightarrow> string \<Rightarrow> js_value \<Rightarrow> 'st ctx" where
  "c_set c k v = c\<lparr>c_vars := (c_vars c)(k \<mapsto> v)\<rparr>"

definition c_get :: "'st ctx \<Rightarrow> string \<Rightarrow> js_value" where
  "c_get c k = (case c_vars c k of None \<Rightarrow> JUndefined | Some v \<Rightarrow> v)"

text \<open>
  A table cell of a rendered page. \<^verbatim>\<open>toLocaleString\<close> and \<^verbatim>\<open>toLocaleDateString\<close>
  depend on the runtime's locale, and the decimal digits of \<^verbatim>\<open>toFixed\<close> are not
  spelled out: such a cell records the number and the format applied to it.
  \<open>LocaleDate v\<close> is \<^verbatim>\<open>new Date(v).toLocaleDateString()\<close> (which does not throw: an
  invalid date prints as such), \<open>DateRange\<close> two of them in one cell, \<open>Mark\<close> the
  check mark or the cross, \<open>Val v\<close> the value \<open>v\<close> interpolated as it is.
\<close>

datatype cell =
    Txt string
  | Val js_value
  | Fixed nat rat
  | LocaleNum js_num
  | LocaleDate js_value
  | DateRange js_value js_value
  | Mark bool

datatype content =
    ErrorContent
  | StatCards "cell list"
  | TableContent "cell list list"

datatype body = TextBody string | HtmlBody content | EmptyBody

text \<open>
  A cookie and its attributes; an attribute that is not sent is \<open>None\<close> (or \<open>False\<close>).
  \<open>maxAge\<close> is in seconds, \<open>expires\<close> an instant in milliseconds. A cookie with neither
  lasts for the browser session.
\<close>

record cookie =
  cookie_name :: string
  cookie_value :: string
  httpOnly :: bool
  maxAge :: "nat option"
  expires :: "nat option"
  secure :: bool
  sameSite :: "string option"
  path :: "string option"

record response =
  status :: nat
  body :: body
  location :: "string option"
  set_cookies :: "cookie list"

definition c_text :: "string \<Rightarrow> nat \<Rightarrow> response" where
  "c_text t s = \<lparr>status = s, body = TextBody t, location = None, set_cookies = []\<rparr>"

definition c_html :: "content \<Rightarrow> nat \<Rightarrow> response" where
  "c_html h s = \<lparr>status = s, body = HtmlBody h, location = None, set_cookies = []\<rparr>"

definition c_redirect :: "string \<Rightarrow> response" where
  "c_redirect loc = \<lparr>status = 302, body = EmptyBody, location = Some loc, set_cookies = []\<rparr>"

text \<open>
  \<^verbatim>\<open>setCookie(c, name, value, options)\<close> of \<^verbatim>\<open>hono/cookie\<close>: the options are those the
  handler passes, over the default \<^verbatim>\<open>path: '/'\<close>.
\<close>

definition setCookie :: "cookie \<Rightarrow> response \<Rightarrow> response" where
  "setCookie ck r =
     r\<lparr>set_cookies := set_cookies r @
       [ck\<lparr>path := (case path ck of None \<Rightarrow> Some ''/'' | Some p \<Rightarrow> Some p)\<rparr>]\<rparr>"

text \<open>
  What handling a request produces: the response, and the statements sent to the
  database on the way (the SQL text with the values bound to it).
\<close>

type_synonym query_log = "(string \<times> js_value list option) list"

type_synonym result = "response \<times> query_log"

text \<open>
  A handler may throw. Hono runs every handler under \<^verbatim>\<open>app.onError\<close>, which answers a
  thrown error with the generic page and status 500; \<^verbatim>\<open>next()\<close> in a middleware
  therefore resolves also when the handler threw.
\<close>

definition onError :: "js_error \<Rightarrow> response" where
  "onError err = c_html ErrorContent 500"

definition respond :: "js_error + response \<Rightarrow> response" where
  "respond r = (case r of Inl err \<Rightarrow> onError err | Inr res \<Rightarrow> res)"

definition dispatch :: "('st ctx \<Rightarrow> (js_error + response) \<times> query_log) \<Rightarrow> 'st ctx \<Rightarrow> result" where
  "dispatch handler c =
     (case handler c of (Inl err, qs) \<Rightarrow> (onError err, qs) | (Inr r, qs) \<Rightarrow> (r, qs))"

section \<open>\<^verbatim>\<open>fetchData\<close>\<close>

text \<open>
  The body of the \<^verbatim>\<open>try\<close> block of \<^verbatim>\<open>fetchData\<close>. \<open>params\<close> is \<open>None\<close> when the
  argument is not an array (\<^verbatim>\<open>Array.isArray(params)\<close> is false).
\<close>

definition fetchData_try :: "'st env \<Rightarrow> string \<Rightarrow> js_value list option \<Rightarrow> js_error + row list" where
  "fetchData_try env query params =
     bindE (d1_prepare (DB env) query) (\<lambda>stmt.
     bindE (case params of Some ps \<Rightarrow> d1_bind (DB env) stmt ps | None \<Rightarrow> Inr stmt) (\<lambda>stmt'.
     bindE (d1_all (DB env) stmt') (\<lambda>result.
       Inr (case results result of Some rs \<Rightarrow> rs | None \<Rightarrow> []))))"

definition fetchData :: "'st env \<Rightarrow> string \<Rightarrow> js_value list option \<Rightarrow> js_error + row list" where
  "fetchData env query params = try_catch (fetchData_try env query params) (\<lambda>error. Inr [])"

text \<open>A binding that answers every statement with the given rows, and one that always throws.\<close>

definition constant_db :: "row list \<Rightarrow> unit d1_database" where
  "constant_db rs =
     \<lparr>d1_prepare = (\<lambda>q. Inr ()), d1_bind = (\<lambda>s ps. Inr ()),
      d1_all = (\<lambda>s. Inr \<lparr>results = Some rs\<rparr>)\<rparr>"

definition failing_db :: "unit d1_database" where
  "failing_db =
     \<lparr>d1_prepare = (\<lambda>q. Inr ()), d1_bind = (\<lambda>s ps. Inr ()),
      d1_all = (\<lambda>s. Inl DatabaseError)\<rparr>"

definition env_of :: "'st d1_database \<Rightarrow> 'st env" where
  "env_of db = \<lparr>DB = db, DMARC_DOMAINS = Map.empty, HUZZANDBUZZ_ACCOUNTS = Map.empty,
     JWT_SECRET_KEY = []\<rparr>"

section \<open>The access guards\<close>

text \<open>
  Token-parameter mode (\<^verbatim>\<open>app.use('*', ...)\<close> of the first two revisions,
  \<^verbatim>\<open>app.use('/dashboard/*', ...)\<close> of \<^verbatim>\<open>part_000\<close>). \<open>next\<close> is the rest of the chain:
  the route's handler under \<^verbatim>\<open>app.onError\<close>. The lookup is awaited outside any
  \<^verbatim>\<open>try\<close>: when it rejects, the middleware throws and \<^verbatim>\<open>app.onError\<close> answers.
\<close>

definition auth_token :: "'st ctx \<Rightarrow> ('st ctx \<Rightarrow> result) \<Rightarrow> result" where
  "auth_token c next =
     (let customerId = req_query (c_req c) ''customer'' in
      if \<not> truthy (to_js customerId) then (c_text ''Missing customer parameter'' 400, [])
      else case customerId of
        None \<Rightarrow> (c_text ''Missing customer parameter'' 400, [])
      | Some cid \<Rightarrow>
          (case kv_get (DMARC_DOMAINS (c_env c)) cid of
             Inl err \<Rightarrow> (onError err, [])
           | Inr isValid \<Rightarrow>
               if \<not> truthy (or_null isValid) then (c_text ''Invalid customer'' 401, [])
               else next (c_set c ''customerId'' (JStr cid))))"

text \<open>
  The libraries the session revision imports (\<^verbatim>\<open>hono/jwt\<close>, \<^verbatim>\<open>bcryptjs\<close>) are not part
  of the repository; the code is modelled over any implementation of them.
  \<open>jwt_verify token secret now\<close> is \<^verbatim>\<open>verify(token, secret)\<close> called at time \<open>now\<close>
  (milliseconds): the decoded payload, or the error it throws. \<open>bcrypt_hash password
  rounds entropy\<close> is \<^verbatim>\<open>hashSync(password, rounds)\<close>; \<open>bcrypt_compare\<close> compares a
  password with a stored hash, both strings.
\<close>

record libs =
  jwt_sign :: "row \<Rightarrow> string \<Rightarrow> string"
  jwt_verify :: "string \<Rightarrow> string \<Rightarrow> nat \<Rightarrow> js_error + row"
  bcrypt_hash :: "string \<Rightarrow> nat \<Rightarrow> string \<Rightarrow> string"
  bcrypt_compare :: "string \<Rightarrow> string \<Rightarrow> bool"

text \<open>
  Session-cookie mode (\<^verbatim>\<open>app.use('/dashboard/*', ...)\<close> of the third revision). The
  \<^verbatim>\<open>try\<close> block also holds \<^verbatim>\<open>await next()\<close>, which does not throw (see \<open>dispatch\<close>).
\<close>

definition auth_session :: "libs \<Rightarrow> 'st ctx \<Rightarrow> ('st ctx \<Rightarrow> result) \<Rightarrow> result" where
  "auth_session L c next =
     (let tokenToVerify = req_cookies (c_req c) ''jwt'' in
      if \<not> truthy (to_js tokenToVerify) then (c_redirect ''/logout'', [])
      else case tokenToVerify of
        None \<Rightarrow> (c_redirect ''/logout'', [])
      | Some tok \<Rightarrow>
          (case jwt_verify L tok (JWT_SECRET_KEY (c_env c)) (now_ms (c_req c)) of
             Inl error \<Rightarrow> (c_redirect ''/logout'', [])
           | Inr decodedPayload \<Rightarrow>
               if \<not> truthy (field decodedPayload ''customerId'') then (c_redirect ''/logout'', [])
               else next (c_set c ''customerId'' (field decodedPayload ''customerId''))))"

section \<open>Registration, login and logout\<close>

text \<open>
  \<^verbatim>\<open>bcrypt.compareSync(s, hash)\<close> of bcryptjs throws unless both arguments are strings
  (\<^verbatim>\<open>Illegal arguments\<close>); on two strings it compares.
\<close>

fun compareSync :: "libs \<Rightarrow> js_value \<Rightarrow> js_value \<Rightarrow> js_error + bool" where
  "compareSync L (JStr s) (JStr hash) = Inr (bcrypt_compare L s hash)"
| "compareSync L s hash = Inl IllegalArguments"

text \<open>
  \<^verbatim>\<open>app.post('/register')\<close>: the response (or the error thrown) and the accounts
  namespace afterwards.
\<close>

definition register :: "libs \<Rightarrow> 'st ctx \<Rightarrow> (js_error + response) \<times> kv_namespace" where
  "register L c =
     (let customerId = form_customerId (req_body (c_req c));
          password = form_password (req_body (c_req c));
          accounts = HUZZANDBUZZ_ACCOUNTS (c_env c)
      in case kv_get accounts customerId of
        Inl err \<Rightarrow> (Inl err, accounts)
      | Inr alreadyExists \<Rightarrow>
          if truthy (or_null alreadyExists)
          then (Inr (c_text ''Customer ID already exist'' 409), accounts)
          else case password of
            None \<Rightarrow> (Inr (c_text ''Invalid credentials'' 401), accounts)
          | Some pw \<Rightarrow>
              if truthy (JStr pw) then
                (let saltRounds = 10;
                     hashedPassword = bcrypt_hash L pw saltRounds (entropy (c_req c))
                 in case kv_put accounts customerId hashedPassword of
                   Inl err \<Rightarrow> (Inl err, accounts)
                 | Inr accounts' \<Rightarrow>
                     (let token = jwt_sign L
                            [(''customerId'', JStr customerId),
                             (''exp'', JNum (Fin (of_nat (now_ms (c_req c) div 1000 + 60 * 60 * 24))))]
                            (JWT_SECRET_KEY (c_env c))
                      in (Inr (setCookie
                            \<lparr>cookie_name = ''jwt'', cookie_value = token, httpOnly = True,
                              maxAge = Some (24 * 60 * 60), expires = None, secure = False,
                              sameSite = None, path = None\<rparr>
                            (c_redirect ''/dashboard/config'')),
                          accounts')))
              else (Inr (c_text ''Invalid credentials'' 401), accounts))"

text \<open>\<^verbatim>\<open>app.post('/login')\<close>; it writes nothing.\<close>

definition login :: "libs \<Rightarrow> 'st ctx \<Rightarrow> js_error + response" where
  "login L c =
     (let customerId = form_customerId (req_body (c_req c));
          password = form_password (req_body (c_req c))
      in bindE (kv_get (HUZZANDBUZZ_ACCOUNTS (c_env c)) customerId) (\<lambda>accountPassword.
         bindE (compareSync L (to_js password) (or_null accountPassword)) (\<lambda>isMatch.
           if isMatch then
             (let token = jwt_sign L
                    [(''customerId'', JStr customerId),
                     (''exp'', JNum (Fin (of_nat (now_ms (c_req c) div 1000 + 60 * 60 * 24))))]
                    (JWT_SECRET_KEY (c_env c))
              in Inr (setCookie
                    \<lparr>cookie_name = ''jwt'', cookie_value = token, httpOnly = True,
                      maxAge = None, expires = None, secure = False,
                      sameSite = None, path = None\<rparr>
                    (c_redirect ''/dashboard/'')))
           else Inr (c_text ''Invalid credentials'' 401))))"

text \<open>\<^verbatim>\<open>app.get('/logout')\<close>.\<close>

definition logout :: "'st ctx \<Rightarrow> js_error + response" where
  "logout c =
     Inr (setCookie
       \<lparr>cookie_name = ''jwt'', cookie_value = [], httpOnly = True, maxAge = None,
         expires = Some 0, secure = True, sameSite = Some ''strict'', path = Some ''/''\<rparr>
       (c_redirect ''/login''))"

section \<open>Number formatting\<close>

text \<open>
  \<^verbatim>\<open>x.toLocaleString()\<close> and \<^verbatim>\<open>x.toFixed(d)\<close> are method calls: on \<^verbatim>\<open>undefined\<close> and
  \<^verbatim>\<open>null\<close> they throw a TypeError, and \<^verbatim>\<open>toFixed\<close> exists on numbers only. A number that
  is not finite is printed by \<^verbatim>\<open>toFixed\<close> as its name.
\<close>

fun toLocaleString :: "js_value \<Rightarrow> js_error + cell" where
  "toLocaleString JUndefined = Inl TypeError"
| "toLocaleString JNull = Inl TypeError"
| "toLocaleString (JNum n) = Inr (LocaleNum n)"
| "toLocaleString (JStr s) = Inr (Txt s)"
| "toLocaleString (JBool b) = Inr (Txt (if b then ''true'' else ''false''))"

fun toFixed :: "nat \<Rightarrow> js_value \<Rightarrow> js_error + cell" where
  "toFixed d (JNum (Fin r)) = Inr (Fixed d r)"
| "toFixed d (JNum NaN) = Inr (Txt ''NaN'')"
| "toFixed d (JNum PosInf) = Inr (Txt ''Infinity'')"
| "toFixed d (JNum NegInf) = Inr (Txt ''-Infinity'')"
| "toFixed d v = Inl TypeError"

section \<open>The overview handler\<close>

text \<open>
  The statement of \<^verbatim>\<open>app.get('/')\<close> (first two revisions) and \<^verbatim>\<open>app.get('/dashboard')\<close>
  (\<^verbatim>\<open>part_000\<close>), and the one of \<^verbatim>\<open>app.get('/dashboard/')\<close> (third revision), which
  guards the ratio with COALESCE and NULLIF. Line breaks and indentation of the SQL text
  are written as single spaces.
\<close>

definition overview_sql :: string where
  "overview_sql = ''SELECT COUNT(*) as total_reports, COUNT(DISTINCT source_ip) as unique_ips, COUNT(DISTINCT header_from) as unique_domains, SUM(CASE WHEN dkim_result = 1 AND spf_result = 1 THEN 1 ELSE 0 END) * 100.0 / COUNT(*) as success_rate FROM dmarc_reports WHERE customer_id = ?1''"

definition overview_sql_coalesce :: string where
  "overview_sql_coalesce = ''SELECT COUNT(*) as total_reports, COUNT(DISTINCT source_ip) as unique_ips, COUNT(DISTINCT header_from) as unique_domains, COALESCE(SUM(CASE WHEN dkim_result = 1 AND spf_result = 1 THEN 1 ELSE 0 END) * 100.0 / NULLIF(COUNT(*), 0), 0) as success_rate FROM dmarc_reports WHERE customer_id = ?1''"

text \<open>The fallback object of both revisions.\<close>

definition zero_stats :: row where
  "zero_stats = [(''total_reports'', JNum (Fin 0)), (''unique_ips'', JNum (Fin 0)),
     (''unique_domains'', JNum (Fin 0)), (''success_rate'', JNum (Fin 0))]"

text \<open>The four cards of the page, from \<^verbatim>\<open>statsObj\<close>; the template is evaluated in order.\<close>

definition stat_cards :: "row \<Rightarrow> js_error + response" where
  "stat_cards statsObj =
     bindE (toLocaleString (field statsObj ''total_reports'')) (\<lambda>total_reports.
     bindE (toLocaleString (field statsObj ''unique_ips'')) (\<lambda>unique_ips.
     bindE (toLocaleString (field statsObj ''unique_domains'')) (\<lambda>unique_domains.
     bindE (toFixed 1 (field statsObj ''success_rate'')) (\<lambda>success_rate.
       Inr (c_html (StatCards [total_reports, unique_ips, unique_domains, success_rate]) 200)))))"

text \<open>
  \<^verbatim>\<open>stats.length > 0 ? stats[0] : {...}\<close> (first revisions) and \<^verbatim>\<open>stats?.[0] ?? {...}\<close>
  (third revision) choose the same object for a list of rows.
\<close>

definition overview :: "'st ctx \<Rightarrow> (js_error + response) \<times> query_log" where
  "overview c =
     (let customerId = c_get c ''customerId'';
          params = Some [customerId]
      in (bindE (fetchData (c_env c) overview_sql params) (\<lambda>stats.
            let statsObj = (if length stats > 0 then hd stats else zero_stats)
            in stat_cards statsObj),
          [(overview_sql, params)]))"

definition overview_coalesce :: "'st ctx \<Rightarrow> (js_error + response) \<times> query_log" where
  "overview_coalesce c =
     (let customerId = c_get c ''customerId'';
          params = Some [customerId]
      in (bindE (fetchData (c_env c) overview_sql_coalesce params) (\<lambda>stats.
            let statsObj = (case stats of [] \<Rightarrow> zero_stats | r # rs \<Rightarrow> r)
            in stat_cards statsObj),
          [(overview_sql_coalesce, params)]))"

section \<open>Arithmetic and conversions of the runtime\<close>

text \<open>
  Conversions between strings and numbers, and the parsing of a date string
  (\<^verbatim>\<open>new Date(s).getTime()\<close>, NaN for an invalid date), are the JavaScript runtime's;
  the handlers are modelled over any runtime.
\<close>

record runtime =
  string_to_number :: "string \<Rightarrow> js_num"
  number_to_string :: "js_num \<Rightarrow> string"
  date_getTime :: "string \<Rightarrow> js_num"

fun to_number :: "runtime \<Rightarrow> js_value \<Rightarrow> js_num" where
  "to_number R JUndefined = NaN"
| "to_number R JNull = Fin 0"
| "to_number R (JBool b) = Fin (if b then 1 else 0)"
| "to_number R (JNum n) = n"
| "to_number R (JStr s) = string_to_number R s"

fun to_string :: "runtime \<Rightarrow> js_value \<Rightarrow> string" where
  "to_string R JUndefined = ''undefined''"
| "to_string R JNull = ''null''"
| "to_string R (JBool b) = (if b then ''true'' else ''false'')"
| "to_string R (JNum n) = number_to_string R n"
| "to_string R (JStr s) = s"

text \<open>
  Division and multiplication of numbers never throw: a division by zero is NaN
  (\<^verbatim>\<open>0 / 0\<close>) or an infinity.
\<close>

fun js_div :: "js_num \<Rightarrow> js_num \<Rightarrow> js_num" where
  "js_div NaN y = NaN"
| "js_div x NaN = NaN"
| "js_div (Fin a) (Fin b) =
     (if b = 0 then (if a = 0 then NaN else if 0 < a then PosInf else NegInf) else Fin (a / b))"
| "js_div (Fin a) y = Fin 0"
| "js_div PosInf (Fin b) = (if b < 0 then NegInf else PosInf)"
| "js_div NegInf (Fin b) = (if b < 0 then PosInf else NegInf)"
| "js_div x y = NaN"

fun js_mul :: "js_num \<Rightarrow> js_num \<Rightarrow> js_num" where
  "js_mul NaN y = NaN"
| "js_mul x NaN = NaN"
| "js_mul (Fin a) (Fin b) = Fin (a * b)"
| "js_mul (Fin a) PosInf = (if a = 0 then NaN else if 0 < a then PosInf else NegInf)"
| "js_mul (Fin a) NegInf = (if a = 0 then NaN else if 0 < a then NegInf else PosInf)"
| "js_mul PosInf (Fin b) = (if b = 0 then NaN else if 0 < b then PosInf else NegInf)"
| "js_mul NegInf (Fin b) = (if b = 0 then NaN else if 0 < b then NegInf else PosInf)"
| "js_mul PosInf PosInf = PosInf"
| "js_mul NegInf NegInf = PosInf"
| "js_mul x y = NegInf"

fun js_floor :: "js_num \<Rightarrow> js_num" where
  "js_floor (Fin a) = Fin (of_int \<lfloor>a\<rfloor>)"
| "js_floor x = x"

text \<open>\<^verbatim>\<open>x || y\<close>.\<close>

definition js_or :: "js_value \<Rightarrow> js_value \<Rightarrow> js_value" where
  "js_or x y = (if truthy x then x else y)"


section \<open>The domain summary handler\<close>





section \<open>The geolocation handler\<close>

text \<open>
  \<^verbatim>\<open>fetch(url, { timeout: 5000 })\<close>: the promise rejects (network error, timeout) or
  resolves to a response; \<^verbatim>\<open>response.json()\<close> may throw in turn. The outside world is
  a function from the URL to what the call gives.
\<close>

record http_response =
  resp_ok :: bool
  resp_status :: nat
  resp_json :: "js_error + row"

type_synonym fetcher = "string \<Rightarrow> js_error + http_response"

definition geo_sql :: string where
  "geo_sql = ''SELECT source_ip, COUNT(*) as total FROM dmarc_reports WHERE customer_id = ?1 GROUP BY source_ip''"

definition location_url :: "runtime \<Rightarrow> js_value \<Rightarrow> string" where
  "location_url R ip = ''http://ip-api.com/json/'' @ to_string R ip @ ''?fields=country''"

definition getLocationData :: "runtime \<Rightarrow> fetcher \<Rightarrow> js_value \<Rightarrow> js_error + js_value" where
  "getLocationData R fetch ip =
     try_catch
       (bindE (fetch (location_url R ip)) (\<lambda>response.
          if \<not> resp_ok response then Inl (HttpError (resp_status response))
          else bindE (resp_json response) (\<lambda>locationData.
            Inr (field locationData ''country''))))
       (\<lambda>error. Inr (JStr ''Unknown''))"

text \<open>The callback of \<^verbatim>\<open>data.map\<close>: one promise per row.\<close>

definition geo_entry :: "runtime \<Rightarrow> fetcher \<Rightarrow> row \<Rightarrow> js_error + row" where
  "geo_entry R fetch row =
     bindE (getLocationData R fetch (field row ''source_ip'')) (\<lambda>loc.
       Inr [(''ip'', field row ''source_ip''), (''total'', field row ''total''),
            (''location'', loc)])"

text \<open>\<^verbatim>\<open>Promise.all\<close>: the list of the values, or a rejection when a promise rejects.\<close>

fun promise_all :: "(js_error + 'a) list \<Rightarrow> js_error + 'a list" where
  "promise_all [] = Inr []"
| "promise_all (p # ps) = bindE p (\<lambda>x. bindE (promise_all ps) (\<lambda>xs. Inr (x # xs)))"

definition geo_distribution ::
  "runtime \<Rightarrow> fetcher \<Rightarrow> 'st ctx \<Rightarrow> (js_error + response) \<times> query_log" where
  "geo_distribution R fetch c =
     (let customerId = c_get c ''customerId'';
          params = Some [customerId]
      in (bindE (fetchData (c_env c) geo_sql params) (\<lambda>data.
          bindE (promise_all (map (geo_entry R fetch) data)) (\<lambda>geoData.
            Inr (c_html (TableContent (map (\<lambda>row.
              [Val (field row ''ip''), Val (field row ''total''), Val (field row ''location'')])
              geoData)) 200))),
          [(geo_sql, params)]))"

section \<open>The detailed reports handler\<close>

text \<open>
  The statement is built from the filters of the request. \<open>detailed_query\<close> is the
  construction of \<^verbatim>\<open>part_000\<close> and of the third revision, \<open>detailed_query_v1\<close> the one of
  the first two revisions (no \<^verbatim>\<open>date_range_end\<close>). Each gives the SQL text and the list
  of values to bind.
\<close>

definition detailed_sql :: string where
  "detailed_sql = ''SELECT date_range_begin, date_range_end, header_from, source_ip, dkim_result, spf_result, disposition, policy_override_type, error FROM dmarc_reports WHERE customer_id = ?1''"

definition detailed_sql_v1 :: string where
  "detailed_sql_v1 = ''SELECT date_range_begin, header_from, source_ip, dkim_result, spf_result, disposition, policy_override_type, error FROM dmarc_reports WHERE customer_id = ?1''"

definition unix_seconds :: "runtime \<Rightarrow> string \<Rightarrow> js_value" where
  "unix_seconds R d = JNum (js_floor (js_div (date_getTime R d) (Fin 1000)))"

definition detailed_query ::
  "runtime \<Rightarrow> js_value \<Rightarrow> string \<Rightarrow> string \<Rightarrow> string \<Rightarrow> string \<times> js_value list" where
  "detailed_query R customerId startDate endDate domain =
     (let query = detailed_sql;
          params = [customerId];
          (query, params) =
            (if startDate \<noteq> []
             then (query @ '' AND date_range_begin >= ?2'', params @ [unix_seconds R startDate])
             else (query, params));
          (query, params) =
            (if endDate \<noteq> []
             then (query @ '' AND date_range_end <= ?3'', params @ [unix_seconds R endDate])
             else (query, params));
          (query, params) =
            (if domain \<noteq> []
             then (query @ '' AND header_from LIKE ?4'', params @ [JStr (''%'' @ domain @ ''%'')])
             else (query, params))
      in (query @ '' ORDER BY date_range_begin DESC LIMIT 1000'', params))"

definition detailed_query_v1 ::
  "runtime \<Rightarrow> js_value \<Rightarrow> string \<Rightarrow> string \<Rightarrow> string \<Rightarrow> string \<times> js_value list" where
  "detailed_query_v1 R customerId startDate endDate domain =
     (let query = detailed_sql_v1;
          params = [customerId];
          (query, params) =
            (if startDate \<noteq> []
             then (query @ '' AND date_range_begin >= ?2'', params @ [unix_seconds R startDate])
             else (query, params));
          (query, params) =
            (if endDate \<noteq> []
             then (query @ '' AND date_range_begin <= ?3'', params @ [unix_seconds R endDate])
             else (query, params));
          (query, params) =
            (if domain \<noteq> []
             then (query @ '' AND header_from LIKE ?4'', params @ [JStr (''%'' @ domain @ ''%'')])
             else (query, params))
      in (query @ '' ORDER BY date_range_begin DESC LIMIT 1000'', params))"

text \<open>\<^verbatim>\<open>c.req.query(k) || ''\<close>.\<close>

definition query_or_empty :: "request \<Rightarrow> string \<Rightarrow> string" where
  "query_or_empty r k = (case req_query r k of None \<Rightarrow> [] | Some v \<Rightarrow> v)"

definition times_1000 :: "runtime \<Rightarrow> js_value \<Rightarrow> js_value" where
  "times_1000 R v = JNum (js_mul (to_number R v) (Fin 1000))"

definition detailed_row :: "runtime \<Rightarrow> row \<Rightarrow> cell list" where
  "detailed_row R row =
     [DateRange (times_1000 R (field row ''date_range_begin''))
        (times_1000 R (field row ''date_range_end'')),
      Val (field row ''header_from''), Val (field row ''source_ip''),
      Mark (truthy (field row ''dkim_result'')), Mark (truthy (field row ''spf_result'')),
      Val (field row ''disposition''),
      Val (js_or (field row ''policy_override_type'') (JStr ''None'')),
      Val (js_or (field row ''error'') (JStr ''None''))]"

definition detailed_row_v1 :: "runtime \<Rightarrow> row \<Rightarrow> cell list" where
  "detailed_row_v1 R row =
     [LocaleDate (times_1000 R (field row ''date_range_begin'')),
      Val (field row ''header_from''), Val (field row ''source_ip''),
      Mark (truthy (field row ''dkim_result'')), Mark (truthy (field row ''spf_result'')),
      Val (field row ''disposition''),
      Val (js_or (field row ''policy_override_type'') (JStr ''None'')),
      Val (js_or (field row ''error'') (JStr ''None''))]"

text \<open>\<^verbatim>\<open>app.get('/dashboard/detailed-reports')\<close> of \<^verbatim>\<open>part_000\<close>.\<close>

definition detailed_reports :: "runtime \<Rightarrow> 'st ctx \<Rightarrow> (js_error + response) \<times> query_log" where
  "detailed_reports R c =
     (let customerId = c_get c ''customerId'';
          startDate = query_or_empty (c_req c) ''start'';
          endDate = query_or_empty (c_req c) ''end'';
          domain = query_or_empty (c_req c) ''domain'';
          (query, params) = detailed_query R customerId startDate endDate domain
      in (bindE (fetchData (c_env c) query (Some params)) (\<lambda>data.
            Inr (c_html (TableContent (map (detailed_row R) data)) 200)),
          [(query, Some params)]))"

text \<open>\<^verbatim>\<open>app.get('/detailed-reports')\<close> of the first two revisions.\<close>

definition detailed_reports_v1 :: "runtime \<Rightarrow> 'st ctx \<Rightarrow> (js_error + response) \<times> query_log" where
  "detailed_reports_v1 R c =
     (let customerId = c_get c ''customerId'';
          startDate = query_or_empty (c_req c) ''start'';
          endDate = query_or_empty (c_req c) ''end'';
          domain = query_or_empty (c_req c) ''domain'';
          (query, params) = detailed_query_v1 R customerId startDate endDate domain
      in (bindE (fetchData (c_env c) query (Some params)) (\<lambda>data.
            Inr (c_html (TableContent (map (detailed_row_v1 R) data)) 200)),
          [(query, Some params)]))"

section \<open>What the statements compute\<close>

text \<open>
  The columns of \<^verbatim>\<open>dmarc_reports\<close> that the overview statements read. The statements are
  SQLite (D1): an aggregate SELECT without GROUP BY yields exactly one row, COUNT of no
  rows is 0, SUM of no rows is NULL, and arithmetic on NULL is NULL.
\<close>

record report =
  customer_id :: string
  source_ip :: string
  header_from :: string
  dkim_result :: int
  spf_result :: int

definition matching :: "report list \<Rightarrow> js_value \<Rightarrow> report list" where
  "matching tbl p = filter (\<lambda>r. JStr (customer_id r) = p) tbl"

definition passed_count :: "report list \<Rightarrow> nat" where
  "passed_count ms = length (filter (\<lambda>r. dkim_result r = 1 \<and> spf_result r = 1) ms)"

definition count_col :: "nat \<Rightarrow> js_value" where
  "count_col n = JNum (Fin (of_nat n))"

definition select_overview :: "report list \<Rightarrow> js_value \<Rightarrow> row list" where
  "select_overview tbl p =
     (let ms = matching tbl p in
      [[(''total_reports'', count_col (length ms)),
        (''unique_ips'', count_col (length (remdups (map source_ip ms)))),
        (''unique_domains'', count_col (length (remdups (map header_from ms)))),
        (''success_rate'',
           if ms = [] then JNull
           else JNum (Fin (of_nat (passed_count ms) * 100 / of_nat (length ms))))]])"

definition select_overview_coalesce :: "report list \<Rightarrow> js_value \<Rightarrow> row list" where
  "select_overview_coalesce tbl p =
     (let ms = matching tbl p in
      [[(''total_reports'', count_col (length ms)),
        (''unique_ips'', count_col (length (remdups (map source_ip ms)))),
        (''unique_domains'', count_col (length (remdups (map header_from ms)))),
        (''success_rate'',
           if ms = [] then JNum (Fin 0)
           else JNum (Fin (of_nat (passed_count ms) * 100 / of_nat (length ms))))]])"

text \<open>
  The number of values a statement expects, as SQLite counts the parameters of a SQL
  text: \<^verbatim>\<open>?N\<close> is parameter \<open>N\<close>, a \<^verbatim>\<open>?\<close> without digits is the parameter after the
  highest one so far, and the statement expects as many values as its highest parameter.
  A \<^verbatim>\<open>?\<close> in a string literal, in a quoted identifier or in a comment is no parameter.
  (Named parameters, which D1 does not take, are not counted.) The text is read one
  character at a time; \<open>scan_mode\<close> is where the reader stands.
\<close>

datatype scan_mode =
    Code
  | Param "nat option"
  | Quoted char
  | QuoteSeen char
  | Bracket
  | Dash
  | LineComment
  | Slash
  | BlockComment
  | BlockStar

definition is_digit :: "char \<Rightarrow> bool" where
  "is_digit ch = (ch \<in> set ''0123456789'')"

definition digit_val :: "char \<Rightarrow> nat" where
  "digit_val ch = of_char ch - 48"

fun close_param :: "nat option \<Rightarrow> nat \<Rightarrow> nat" where
  "close_param None m = Suc m"
| "close_param (Some n) m = max m n"

fun add_digit :: "nat option \<Rightarrow> char \<Rightarrow> nat option" where
  "add_digit None ch = Some (digit_val ch)"
| "add_digit (Some n) ch = Some (n * 10 + digit_val ch)"

function scan_params :: "scan_mode \<Rightarrow> nat \<Rightarrow> string \<Rightarrow> nat" where
  "scan_params md m [] = (case md of Param p \<Rightarrow> close_param p m | _ \<Rightarrow> m)"
| "scan_params Code m (ch # cs) =
     (if ch = CHR ''?'' then scan_params (Param None) m cs
      else if ch = CHR 0x27 \<or> ch = CHR 0x22 \<or> ch = CHR 0x60 then scan_params (Quoted ch) m cs
      else if ch = CHR ''['' then scan_params Bracket m cs
      else if ch = CHR ''-'' then scan_params Dash m cs
      else if ch = CHR ''/'' then scan_params Slash m cs
      else scan_params Code m cs)"
| "scan_params (Param p) m (ch # cs) =
     (if is_digit ch then scan_params (Param (add_digit p ch)) m cs
      else scan_params Code (close_param p m) (ch # cs))"
| "scan_params (Quoted q) m (ch # cs) =
     (if ch = q then scan_params (QuoteSeen q) m cs else scan_params (Quoted q) m cs)"
| "scan_params (QuoteSeen q) m (ch # cs) =
     (if ch = q then scan_params (Quoted q) m cs else scan_params Code m (ch # cs))"
| "scan_params Bracket m (ch # cs) =
     (if ch = CHR '']'' then scan_params Code m cs else scan_params Bracket m cs)"
| "scan_params Dash m (ch # cs) =
     (if ch = CHR ''-'' then scan_params LineComment m cs else scan_params Code m (ch # cs))"
| "scan_params LineComment m (ch # cs) =
     (if ch = CHR 0x0A then scan_params Code m cs else scan_params LineComment m cs)"
| "scan_params Slash m (ch # cs) =
     (if ch = CHR ''*'' then scan_params BlockComment m cs else scan_params Code m (ch # cs))"
| "scan_params BlockComment m (ch # cs) =
     (if ch = CHR ''*'' then scan_params BlockStar m cs else scan_params BlockComment m cs)"
| "scan_params BlockStar m (ch # cs) =
     (if ch = CHR ''/'' then scan_params Code m cs
      else if ch = CHR ''*'' then scan_params BlockStar m cs
      else scan_params BlockComment m cs)"
  by pat_completeness auto
termination
  by (relation "measures [\<lambda>(md, m, cs). length cs, \<lambda>(md, m, cs). if md = Code then 0 else 1]")
    auto

definition expected_params :: "string \<Rightarrow> nat" where
  "expected_params q = scan_params Code 0 q"

text \<open>
  A stand-in for the D1 binding over a table of reports, for the overview statements. A
  statement is its SQL text with the values bound so far; \<^verbatim>\<open>all\<close> throws when the number
  of bound values is not the number the statement expects, and answers the two overview
  statements as above. It knows no other statement (it throws on one).
\<close>

definition d1_sqlite :: "report list \<Rightarrow> (string \<times> js_value list) d1_database" where
  "d1_sqlite tbl =
     \<lparr>d1_prepare = (\<lambda>q. Inr (q, [])),
      d1_bind = (\<lambda>stmt ps. Inr (fst stmt, ps)),
      d1_all = (\<lambda>stmt.
         if length (snd stmt) \<noteq> expected_params (fst stmt) then Inl DatabaseError
         else if fst stmt = overview_sql
           then Inr \<lparr>results = Some (select_overview tbl (hd (snd stmt)))\<rparr>
         else if fst stmt = overview_sql_coalesce
           then Inr \<lparr>results = Some (select_overview_coalesce tbl (hd (snd stmt)))\<rparr>
         else Inl DatabaseError)\<rparr>"

text \<open>
  A second stand-in, for the statements whose meaning is not spelled out here: it checks
  the number of bound values as D1 does and answers a well-bound statement, whatever
  its text, with the rows it is given.
\<close>

definition d1_counting :: "row list \<Rightarrow> (string \<times> js_value list) d1_database" where
  "d1_counting rs =
     \<lparr>d1_prepare = (\<lambda>q. Inr (q, [])),
      d1_bind = (\<lambda>stmt ps. Inr (fst stmt, ps)),
      d1_all = (\<lambda>stmt.
         if length (snd stmt) \<noteq> expected_params (fst stmt) then Inl DatabaseError
         else Inr \<lparr>results = Some rs\<rparr>)\<rparr>"

section \<open>Sample requests\<close>

definition sample_request :: request where
  "sample_request = \<lparr>req_query = Map.empty, req_cookies = Map.empty,
     req_body = \<lparr>form_customerId = [], form_password = None\<rparr>,
     now_ms = 1700000000999, entropy = ''salt''\<rparr>"

definition sample_env :: "report list \<Rightarrow> (string \<times> js_value list) env" where
  "sample_env tbl = \<lparr>DB = d1_sqlite tbl, DMARC_DOMAINS = [''acme'' \<mapsto> ''1''],
     HUZZANDBUZZ_ACCOUNTS = Map.empty, JWT_SECRET_KEY = ''secret''\<rparr>"

definition sample_ctx :: "'st env \<Rightarrow> request \<Rightarrow> 'st ctx" where
  "sample_ctx e r = \<lparr>c_env = e, c_req = r, c_vars = Map.empty\<rparr>"

definition with_query :: "string \<Rightarrow> string \<Rightarrow> request" where
  "with_query k v = sample_request\<lparr>req_query := [k \<mapsto> v]\<rparr>"

definition with_cookie :: "string \<Rightarrow> string \<Rightarrow> request" where
  "with_cookie k v = sample_request\<lparr>req_cookies := [k \<mapsto> v]\<rparr>"

text \<open>
  Stand-ins for the two libraries, for the sample requests only: one token that verifies
  under the sample secret until its expiry, one that verifies and carries no tenant, and
  a hash that can be read back.
\<close>

definition sample_libs :: libs where
  "sample_libs =
     \<lparr>jwt_sign = (\<lambda>payload secret. ''token-of-acme''),
      jwt_verify = (\<lambda>tok secret now.
         if tok = ''token-of-acme'' \<and> secret = ''secret''
         then (if now div 1000 < 1700086400
               then Inr [(''customerId'', JStr ''acme''), (''exp'', JNum (Fin 1700086400))]
               else Inl JwtTokenExpired)
         else if tok = ''token-without-tenant'' \<and> secret = ''secret''
         then Inr [(''exp'', JNum (Fin 1700086400))]
         else if tok = [] then Inl JwtTokenInvalid
         else Inl JwtSignatureMismatched),
      bcrypt_hash = (\<lambda>password rounds salt. ''$2a$'' @ salt @ ''$'' @ password),
      bcrypt_compare = (\<lambda>password hash. hash = ''$2a$salt$'' @ password)\<rparr>"

definition with_form :: "string \<Rightarrow> string \<Rightarrow> request" where
  "with_form cid pw =
     sample_request\<lparr>req_body := \<lparr>form_customerId = cid, form_password = Some pw\<rparr>\<rparr>"

definition with_accounts :: "'st env \<Rightarrow> kv_namespace \<Rightarrow> 'st env" where
  "with_accounts e accounts = e\<lparr>HUZZANDBUZZ_ACCOUNTS := accounts\<rparr>"

definition sample_runtime :: runtime where
  "sample_runtime = \<lparr>string_to_number = (\<lambda>s. NaN), number_to_string = (\<lambda>n. ''0''),
     date_getTime = (\<lambda>s. if s = ''2024-01-01'' then Fin 1704067200000 else NaN)\<rparr>"


text \<open>
  A world in which the lookup of one address is refused by the network, the lookup of a
  second is answered with status 429, and the lookup of a third succeeds.
\<close>

definition sample_fetch :: fetcher where
  "sample_fetch url =
     (if url = ''http://ip-api.com/json/192.0.2.1?fields=country'' then Inl NetworkError
      else if url = ''http://ip-api.com/json/203.0.113.9?fields=country''
        then Inr \<lparr>resp_ok = False, resp_status = 429, resp_json = Inl SyntaxError\<rparr>
      else Inr \<lparr>resp_ok = True, resp_status = 200,
        resp_json = Inr [(''country'', JStr ''Norway'')]\<rparr>)"

definition ip_row :: "string \<Rightarrow> row" where
  "ip_row ip = [(''source_ip'', JStr ip), (''total'', JNum (Fin 1))]"

definition three_ips :: "row list" where
  "three_ips = [ip_row ''192.0.2.1'', ip_row ''203.0.113.9'', ip_row ''198.51.100.7'']"

definition sample_detail_row :: row where
  "sample_detail_row = [(''date_range_begin'', JNum (Fin 1704067200)),
     (''date_range_end'', JNum (Fin 1704153600)), (''header_from'', JStr ''example.org''),
     (''source_ip'', JStr ''192.0.2.1''), (''dkim_result'', JNum (Fin 1)),
     (''spf_result'', JNum (Fin 1)), (''disposition'', JNum (Fin 1)),
     (''policy_override_type'', JNull), (''error'', JNull)]"

definition counting_env :: "row list \<Rightarrow> (string \<times> js_value list) env" where
  "counting_env rs = \<lparr>DB = d1_counting rs, DMARC_DOMAINS = [''acme'' \<mapsto> ''1''],
     HUZZANDBUZZ_ACCOUNTS = Map.empty, JWT_SECRET_KEY = ''secret''\<rparr>"

definition other_report :: report where
  "other_report = \<lparr>customer_id = ''other'', source_ip = ''192.0.2.1'',
     header_from = ''example.org'', dkim_result = 1, spf_result = 1\<rparr>"

section \<open>Properties\<close>

subsection \<open>\<^verbatim>\<open>fetchData\<close> never throws\<close>

lemma fetchData_total: "\<exists>rows. fetchData env q ps = Inr rows"
  by (cases "fetchData_try env q ps") (simp_all add: fetchData_def try_catch_def)

lemma fetchData_on_error: "fetchData_try env q ps = Inl e \<Longrightarrow> fetchData env q ps = Inr []"
  by (simp add: fetchData_def try_catch_def)

lemma fetchData_constant_db: "fetchData (env_of (constant_db rs)) q ps = Inr rs"
  by (cases ps)
    (simp_all add: fetchData_def fetchData_try_def try_catch_def bindE_def constant_db_def env_of_def)

text \<open>
  C7. Whatever the database binding does, \<^verbatim>\<open>fetchData\<close> returns a list of rows and never
  throws; when \<^verbatim>\<open>prepare\<close>, \<^verbatim>\<open>bind\<close> or \<^verbatim>\<open>all\<close> throws, that list is empty, which is
  exactly what the caller gets from a database that answers with no rows, so the failure
  cannot reach the handler or its response.
\<close>

theorem fetchData_swallows_database_errors:
  "(\<exists>rows. fetchData env q ps = Inr rows) \<and>
   (\<forall>e. fetchData_try env q ps = Inl e \<longrightarrow>
      fetchData env q ps = Inr [] \<and>
      fetchData env q ps = fetchData (env_of (constant_db [])) q ps)"
  using fetchData_total [of env q ps] fetchData_on_error [of env q ps]
  by (simp add: fetchData_constant_db)

theorem fetchData_swallows_database_errors_witness:
  "fetchData_try (env_of failing_db) ''SELECT 1'' (Some [JStr ''acme'']) = Inl DatabaseError \<and>
   fetchData (env_of failing_db) ''SELECT 1'' (Some [JStr ''acme'']) = Inr []"
  using fetchData_swallows_database_errors [of "env_of failing_db" "''SELECT 1''" "Some [JStr ''acme'']"]
  by (simp add: fetchData_try_def bindE_def failing_db_def env_of_def)

subsection \<open>The token-parameter guard\<close>

lemma c_get_c_set: "c_get (c_set c k v) k = v"
  by (simp add: c_get_def c_set_def)

lemma auth_token_cases:
  "auth_token c next =
     (case req_query (c_req c) ''customer'' of
        None \<Rightarrow> (c_text ''Missing customer parameter'' 400, [])
      | Some cid \<Rightarrow>
          if cid = [] then (c_text ''Missing customer parameter'' 400, [])
          else (case kv_get (DMARC_DOMAINS (c_env c)) cid of
                  Inl err \<Rightarrow> (onError err, [])
                | Inr isValid \<Rightarrow>
                    if truthy (or_null isValid)
                    then next (c_set c ''customerId'' (JStr cid))
                    else (c_text ''Invalid customer'' 401, [])))"
  by (simp add: auth_token_def to_js_def Let_def split: option.splits sum.splits)

lemma kv_get_throws: "(\<exists>err. kv_get kv k = Inl err) \<longleftrightarrow> \<not> kv_key_ok k"
  by (simp add: kv_get_def)

text \<open>
  C1, as stated, fails in two ways. A request that carries the parameter with an empty
  value (\<^verbatim>\<open>?customer=\<close>) is answered 400, not 401, although the parameter is present and
  the allowlist holds nothing for it: \<^verbatim>\<open>!customerId\<close> is true of the empty string. And a
  request whose identifier the KV binding refuses as a key (here 513 bytes) is answered
  500: the awaited lookup rejects, so it returns no value at all, falsy or not, and yet
  the handler does not proceed.
\<close>

theorem auth_token_empty_parameter:
  "req_query (c_req (sample_ctx (sample_env []) (with_query ''customer'' []))) ''customer'' = Some [] \<and>
   auth_token (sample_ctx (sample_env []) (with_query ''customer'' [])) (dispatch overview) =
     (c_text ''Missing customer parameter'' 400, []) \<and>
   status (c_text ''Missing customer parameter'' 400) = 400 \<and>
   kv_get (DMARC_DOMAINS (c_env (sample_ctx (sample_env [])
      (with_query ''customer'' (replicate 513 (CHR ''a''))))))
      (replicate 513 (CHR ''a'')) = Inl KvError \<and>
   auth_token (sample_ctx (sample_env []) (with_query ''customer'' (replicate 513 (CHR ''a''))))
      (dispatch overview) = (c_html ErrorContent 500, []) \<and>
   status (c_html ErrorContent 500) = 500"
proof -
  have long: "replicate 513 (CHR ''a'') \<noteq> []" "\<not> kv_key_ok (replicate 513 (CHR ''a''))"
    by (auto simp: kv_key_ok_def)
  then show ?thesis
    by (simp add: auth_token_cases sample_ctx_def sample_env_def with_query_def sample_request_def
        kv_get_def c_text_def c_html_def onError_def)
qed

text \<open>
  C1, amended. In token-parameter mode: if the \<^verbatim>\<open>customer\<close> query parameter is absent or
  empty, the guard answers 400; if it is not empty and the allowlist lookup for it throws
  (the KV binding refuses the key), the error reaches \<^verbatim>\<open>app.onError\<close> and the answer is
  500; if the lookup returns a falsy value, the guard answers 401; in these three cases
  no statement reaches the database. Otherwise the guard stores the identifier in the
  context under \<^verbatim>\<open>customerId\<close> and the outcome is that of the rest of the chain on that
  context.
\<close>

theorem auth_token_guard:
  "(req_query (c_req c) ''customer'' = None \<or> req_query (c_req c) ''customer'' = Some [] \<longrightarrow>
      auth_token c next = (c_text ''Missing customer parameter'' 400, []) \<and>
      status (fst (auth_token c next)) = 400 \<and> snd (auth_token c next) = []) \<and>
   (\<forall>cid err. req_query (c_req c) ''customer'' = Some cid \<and> cid \<noteq> [] \<and>
       kv_get (DMARC_DOMAINS (c_env c)) cid = Inl err \<longrightarrow>
      auth_token c next = (onError err, []) \<and>
      status (fst (auth_token c next)) = 500 \<and> snd (auth_token c next) = []) \<and>
   (\<forall>cid isValid. req_query (c_req c) ''customer'' = Some cid \<and> cid \<noteq> [] \<and>
       kv_get (DMARC_DOMAINS (c_env c)) cid = Inr isValid \<and> \<not> truthy (or_null isValid) \<longrightarrow>
      auth_token c next = (c_text ''Invalid customer'' 401, []) \<and>
      status (fst (auth_token c next)) = 401 \<and> snd (auth_token c next) = []) \<and>
   (\<forall>cid isValid. req_query (c_req c) ''customer'' = Some cid \<and> cid \<noteq> [] \<and>
       kv_get (DMARC_DOMAINS (c_env c)) cid = Inr isValid \<and> truthy (or_null isValid) \<longrightarrow>
      auth_token c next = next (c_set c ''customerId'' (JStr cid)) \<and>
      c_get (c_set c ''customerId'' (JStr cid)) ''customerId'' = JStr cid)"
  by (auto simp: auth_token_cases c_text_def c_html_def onError_def c_get_c_set)

theorem auth_token_guard_witness:
  "status (fst (auth_token (sample_ctx (sample_env []) sample_request) (dispatch overview))) = 400 \<and>
   snd (auth_token (sample_ctx (sample_env []) sample_request) (dispatch overview)) = [] \<and>
   status (fst (auth_token (sample_ctx (sample_env [])
      (with_query ''customer'' (replicate 513 (CHR ''a'')))) (dispatch overview))) = 500 \<and>
   snd (auth_token (sample_ctx (sample_env [])
      (with_query ''customer'' (replicate 513 (CHR ''a'')))) (dispatch overview)) = [] \<and>
   status (fst (auth_token (sample_ctx (sample_env []) (with_query ''customer'' ''evil'')) (dispatch overview))) = 401 \<and>
   snd (auth_token (sample_ctx (sample_env []) (with_query ''customer'' ''evil'')) (dispatch overview)) = [] \<and>
   auth_token (sample_ctx (sample_env []) (with_query ''customer'' ''acme'')) (dispatch overview) =
     dispatch overview
       (c_set (sample_ctx (sample_env []) (with_query ''customer'' ''acme'')) ''customerId'' (JStr ''acme''))"
proof -
  let ?none = "sample_ctx (sample_env []) sample_request"
  let ?long = "sample_ctx (sample_env []) (with_query ''customer'' (replicate 513 (CHR ''a'')))"
  let ?evil = "sample_ctx (sample_env []) (with_query ''customer'' ''evil'')"
  let ?acme = "sample_ctx (sample_env []) (with_query ''customer'' ''acme'')"
  have "req_query (c_req ?none) ''customer'' = None"
    by (simp add: sample_ctx_def sample_request_def)
  with auth_token_guard [of ?none "dispatch overview"]
  have missing: "status (fst (auth_token ?none (dispatch overview))) = 400 \<and>
      snd (auth_token ?none (dispatch overview)) = []"
    by blast
  have "\<not> kv_key_ok (replicate 513 (CHR ''a''))"
    by (simp add: kv_key_ok_def)
  then have "req_query (c_req ?long) ''customer'' = Some (replicate 513 (CHR ''a'')) \<and>
      replicate 513 (CHR ''a'') \<noteq> [] \<and>
      kv_get (DMARC_DOMAINS (c_env ?long)) (replicate 513 (CHR ''a'')) = Inl KvError"
    by (simp add: sample_ctx_def with_query_def sample_request_def kv_get_def)
  with auth_token_guard [of ?long "dispatch overview"]
  have refused: "status (fst (auth_token ?long (dispatch overview))) = 500 \<and>
      snd (auth_token ?long (dispatch overview)) = []"
    by blast
  have "req_query (c_req ?evil) ''customer'' = Some ''evil'' \<and> ''evil'' \<noteq> [] \<and>
      kv_get (DMARC_DOMAINS (c_env ?evil)) ''evil'' = Inr None \<and> \<not> truthy (or_null None)"
    by (simp add: sample_ctx_def sample_env_def with_query_def sample_request_def kv_get_def
        kv_key_ok_def or_null_def)
  with auth_token_guard [of ?evil "dispatch overview"]
  have invalid: "status (fst (auth_token ?evil (dispatch overview))) = 401 \<and>
      snd (auth_token ?evil (dispatch overview)) = []"
    by blast
  have "req_query (c_req ?acme) ''customer'' = Some ''acme'' \<and> ''acme'' \<noteq> [] \<and>
      kv_get (DMARC_DOMAINS (c_env ?acme)) ''acme'' = Inr (Some ''1'') \<and>
      truthy (or_null (Some ''1''))"
    by (simp add: sample_ctx_def sample_env_def with_query_def sample_request_def kv_get_def
        kv_key_ok_def or_null_def)
  with auth_token_guard [of ?acme "dispatch overview"]
  have "auth_token ?acme (dispatch overview) =
      dispatch overview (c_set ?acme ''customerId'' (JStr ''acme''))"
    by blast
  with missing refused invalid show ?thesis by blast
qed

subsection \<open>The session-cookie guard\<close>

lemma auth_session_cases:
  assumes "\<And>k n. \<exists>e. jwt_verify L [] k n = Inl e"
  shows "auth_session L c next =
     (case req_cookies (c_req c) ''jwt'' of
        None \<Rightarrow> (c_redirect ''/logout'', [])
      | Some tok \<Rightarrow>
          (case jwt_verify L tok (JWT_SECRET_KEY (c_env c)) (now_ms (c_req c)) of
             Inl e \<Rightarrow> (c_redirect ''/logout'', [])
           | Inr p \<Rightarrow>
               if truthy (field p ''customerId'')
               then next (c_set c ''customerId'' (field p ''customerId''))
               else (c_redirect ''/logout'', [])))"
proof (cases "req_cookies (c_req c) ''jwt''")
  case None
  then show ?thesis by (simp add: auth_session_def to_js_def)
next
  case (Some tok)
  show ?thesis
  proof (cases "tok = []")
    case True
    obtain e where "jwt_verify L [] (JWT_SECRET_KEY (c_env c)) (now_ms (c_req c)) = Inl e"
      using assms by blast
    with Some True show ?thesis by (simp add: auth_session_def to_js_def)
  next
    case False
    with Some show ?thesis
      by (simp add: auth_session_def to_js_def split: sum.splits)
  qed
qed

text \<open>
  C2. In session-cookie mode, over any JWT library whose \<^verbatim>\<open>verify\<close> rejects the empty
  string (it is not a token): when the \<^verbatim>\<open>jwt\<close> cookie is absent, when \<^verbatim>\<open>verify\<close> throws
  (signature mismatch, expiry), or when the verified payload has no truthy
  \<^verbatim>\<open>customerId\<close>, the guard redirects to \<^verbatim>\<open>/logout\<close>, and neither a handler nor a
  statement runs; otherwise the payload's \<^verbatim>\<open>customerId\<close> is stored in the context and the
  outcome is that of the rest of the chain on that context.
\<close>

theorem auth_session_guard:
  assumes "\<And>k n. \<exists>e. jwt_verify L [] k n = Inl e"
  shows
  "(req_cookies (c_req c) ''jwt'' = None \<longrightarrow>
      auth_session L c next = (c_redirect ''/logout'', [])) \<and>
   (\<forall>tok e. req_cookies (c_req c) ''jwt'' = Some tok \<and>
       jwt_verify L tok (JWT_SECRET_KEY (c_env c)) (now_ms (c_req c)) = Inl e \<longrightarrow>
      auth_session L c next = (c_redirect ''/logout'', [])) \<and>
   (\<forall>tok p. req_cookies (c_req c) ''jwt'' = Some tok \<and>
       jwt_verify L tok (JWT_SECRET_KEY (c_env c)) (now_ms (c_req c)) = Inr p \<and>
       \<not> truthy (field p ''customerId'') \<longrightarrow>
      auth_session L c next = (c_redirect ''/logout'', [])) \<and>
   (\<forall>tok p. req_cookies (c_req c) ''jwt'' = Some tok \<and>
       jwt_verify L tok (JWT_SECRET_KEY (c_env c)) (now_ms (c_req c)) = Inr p \<and>
       truthy (field p ''customerId'') \<longrightarrow>
      auth_session L c next = next (c_set c ''customerId'' (field p ''customerId'')) \<and>
      c_get (c_set c ''customerId'' (field p ''customerId'')) ''customerId'' =
        field p ''customerId'')"
  by (auto simp: auth_session_cases [OF assms] c_get_c_set)

theorem auth_session_guard_witness:
  "auth_session sample_libs (sample_ctx (sample_env []) sample_request)
     (dispatch overview_coalesce) = (c_redirect ''/logout'', []) \<and>
   auth_session sample_libs (sample_ctx (sample_env []) (with_cookie ''jwt'' ''forged''))
     (dispatch overview_coalesce) = (c_redirect ''/logout'', []) \<and>
   auth_session sample_libs
     (sample_ctx (sample_env []) (with_cookie ''jwt'' ''token-of-acme''\<lparr>now_ms := 1700086400000\<rparr>))
     (dispatch overview_coalesce) = (c_redirect ''/logout'', []) \<and>
   auth_session sample_libs
     (sample_ctx (sample_env []) (with_cookie ''jwt'' ''token-without-tenant''))
     (dispatch overview_coalesce) = (c_redirect ''/logout'', []) \<and>
   auth_session sample_libs (sample_ctx (sample_env []) (with_cookie ''jwt'' ''token-of-acme''))
     (dispatch overview_coalesce) =
     dispatch overview_coalesce
       (c_set (sample_ctx (sample_env []) (with_cookie ''jwt'' ''token-of-acme''))
          ''customerId'' (JStr ''acme''))"
proof -
  have rejects: "\<And>k n. \<exists>e. jwt_verify sample_libs [] k n = Inl e"
    by (simp add: sample_libs_def)
  show ?thesis
    using auth_session_guard [OF rejects, of "sample_ctx (sample_env []) sample_request"
        "dispatch overview_coalesce"]
      auth_session_guard [OF rejects, of "sample_ctx (sample_env []) (with_cookie ''jwt'' ''forged'')"
        "dispatch overview_coalesce"]
      auth_session_guard [OF rejects,
        of "sample_ctx (sample_env []) (with_cookie ''jwt'' ''token-of-acme''\<lparr>now_ms := 1700086400000\<rparr>)"
        "dispatch overview_coalesce"]
      auth_session_guard [OF rejects,
        of "sample_ctx (sample_env []) (with_cookie ''jwt'' ''token-without-tenant'')"
        "dispatch overview_coalesce"]
      auth_session_guard [OF rejects,
        of "sample_ctx (sample_env []) (with_cookie ''jwt'' ''token-of-acme'')"
        "dispatch overview_coalesce"]
    by (simp add: sample_ctx_def sample_env_def with_cookie_def sample_request_def
        sample_libs_def field_def)
qed

subsection \<open>Login\<close>

text \<open>
  C3 does not hold for a tenant without a credential record: \<^verbatim>\<open>get\<close> gives \<^verbatim>\<open>null\<close>,
  \<^verbatim>\<open>compareSync\<close> throws on it before any comparison, and the answer is the generic
  error page with status 500 (no cookie is set), not the 401 of the last line of the
  handler.
\<close>

theorem login_unknown_tenant_throws:
  assumes "kv_get (HUZZANDBUZZ_ACCOUNTS (c_env c)) (form_customerId (req_body (c_req c))) = Inr None"
  shows "login L c = Inl IllegalArguments \<and> status (respond (login L c)) = 500 \<and>
     set_cookies (respond (login L c)) = []"
proof -
  have "compareSync L (to_js (form_password (req_body (c_req c)))) JNull = Inl IllegalArguments"
    by (cases "form_password (req_body (c_req c))") (simp_all add: to_js_def)
  then have "login L c = Inl IllegalArguments"
    using assms by (simp add: login_def or_null_def bindE_def)
  then show ?thesis
    by (simp add: respond_def onError_def c_html_def)
qed

theorem login_unknown_tenant_throws_witness:
  "kv_get (HUZZANDBUZZ_ACCOUNTS (c_env (sample_ctx (sample_env []) (with_form ''nobody'' ''hunter2''))))
     (form_customerId (req_body (c_req (sample_ctx (sample_env []) (with_form ''nobody'' ''hunter2''))))) =
     Inr None \<and>
   status (respond (login sample_libs (sample_ctx (sample_env []) (with_form ''nobody'' ''hunter2'')))) = 500"
proof -
  let ?c = "sample_ctx (sample_env []) (with_form ''nobody'' ''hunter2'')"
  have none: "kv_get (HUZZANDBUZZ_ACCOUNTS (c_env ?c)) (form_customerId (req_body (c_req ?c))) = Inr None"
    by (simp add: sample_ctx_def sample_env_def with_form_def sample_request_def kv_get_def
        kv_key_ok_def)
  show ?thesis
    using none login_unknown_tenant_throws [OF none, of sample_libs] by blast
qed

text \<open>
  The rest of C3 holds: a stored record and a password that is posted. (An identifier
  that the KV binding refuses as a key makes the lookup itself throw: 500 as well.)
\<close>

lemma login_refused_key:
  assumes "kv_get (HUZZANDBUZZ_ACCOUNTS (c_env c)) (form_customerId (req_body (c_req c))) = Inl err"
  shows "login L c = Inl err"
  using assms by (simp add: login_def bindE_def)

lemma login_wrong_password:
  assumes "kv_get (HUZZANDBUZZ_ACCOUNTS (c_env c)) (form_customerId (req_body (c_req c))) = Inr (Some h)"
    and "form_password (req_body (c_req c)) = Some pw"
    and "\<not> bcrypt_compare L pw h"
  shows "login L c = Inr (c_text ''Invalid credentials'' 401)"
  using assms by (simp add: login_def or_null_def to_js_def bindE_def)

lemma login_correct_password:
  assumes "kv_get (HUZZANDBUZZ_ACCOUNTS (c_env c)) (form_customerId (req_body (c_req c))) = Inr (Some h)"
    and "form_password (req_body (c_req c)) = Some pw"
    and "bcrypt_compare L pw h"
  shows "\<exists>r. login L c = Inr r \<and> status r = 302 \<and> location r = Some ''/dashboard/'' \<and>
     map cookie_name (set_cookies r) = [''jwt'']"
  using assms by (simp add: login_def or_null_def to_js_def bindE_def setCookie_def c_redirect_def)

text \<open>Logout overwrites the cookie with an empty value that has already expired.\<close>

lemma logout_expires_cookie:
  "\<exists>r. logout c = Inr r \<and> location r = Some ''/login'' \<and>
     map cookie_name (set_cookies r) = [''jwt''] \<and> map cookie_value (set_cookies r) = [[]] \<and>
     map expires (set_cookies r) = [Some 0]"
  by (simp add: logout_def setCookie_def c_redirect_def)

subsection \<open>Registering an identifier twice\<close>

text \<open>
  C4. Over any bcrypt whose hashes are not the empty string: when a register request
  succeeded (it redirected to the configuration page), a register request for the same
  identifier on the accounts it left answers 409 and leaves the accounts as they were; the
  record is still the hash the first request stored.
\<close>

theorem register_twice_conflict:
  assumes hash: "\<And>pw n s. bcrypt_hash L pw n s \<noteq> []"
    and first: "register L c1 = (Inr r1, accounts1)" "location r1 = Some ''/dashboard/config''"
    and second: "HUZZANDBUZZ_ACCOUNTS (c_env c2) = accounts1"
      "form_customerId (req_body (c_req c2)) = form_customerId (req_body (c_req c1))"
  shows "register L c2 = (Inr (c_text ''Customer ID already exist'' 409), accounts1) \<and>
     (\<exists>pw. form_password (req_body (c_req c1)) = Some pw \<and>
        kv_get accounts1 (form_customerId (req_body (c_req c1))) =
          Inr (Some (bcrypt_hash L pw 10 (entropy (c_req c1)))))"
proof -
  let ?cid = "form_customerId (req_body (c_req c1))"
  from first obtain pw where pw: "form_password (req_body (c_req c1)) = Some pw"
    and stored: "kv_put (HUZZANDBUZZ_ACCOUNTS (c_env c1)) ?cid
        (bcrypt_hash L pw 10 (entropy (c_req c1))) = Inr accounts1"
    by (auto simp: register_def Let_def c_text_def setCookie_def c_redirect_def
        split: if_splits option.splits sum.splits)
  from stored have get: "kv_get accounts1 ?cid = Inr (Some (bcrypt_hash L pw 10 (entropy (c_req c1))))"
    by (auto simp: kv_get_def kv_put_def split: if_splits)
  with hash second have "register L c2 = (Inr (c_text ''Customer ID already exist'' 409), accounts1)"
    by (simp add: register_def or_null_def)
  with pw get show ?thesis by simp
qed

text \<open>The issuance of \<^verbatim>\<open>app.post('/register')\<close>, for a new identifier and a password.\<close>

lemma register_issues:
  assumes "kv_get (HUZZANDBUZZ_ACCOUNTS (c_env c)) (form_customerId (req_body (c_req c))) = Inr None"
    and "form_password (req_body (c_req c)) = Some pw" and "pw \<noteq> []"
  shows "register L c =
    (Inr \<lparr>status = 302, body = EmptyBody, location = Some ''/dashboard/config'',
       set_cookies =
         [\<lparr>cookie_name = ''jwt'',
           cookie_value = jwt_sign L
             [(''customerId'', JStr (form_customerId (req_body (c_req c)))),
              (''exp'', JNum (Fin (of_nat (now_ms (c_req c) div 1000 + 86400))))]
             (JWT_SECRET_KEY (c_env c)),
           httpOnly = True, maxAge = Some 86400, expires = None, secure = False,
           sameSite = None, path = Some ''/''\<rparr>]\<rparr>,
     (HUZZANDBUZZ_ACCOUNTS (c_env c))(form_customerId (req_body (c_req c)) \<mapsto>
       bcrypt_hash L pw 10 (entropy (c_req c))))"
proof -
  from assms(1) have "kv_key_ok (form_customerId (req_body (c_req c)))"
    by (simp add: kv_get_def split: if_splits)
  with assms show ?thesis
    by (simp add: register_def or_null_def setCookie_def c_redirect_def Let_def kv_put_def)
qed

theorem register_twice_conflict_witness:
  "register sample_libs
     (sample_ctx
        (with_accounts (sample_env []) [''acme'' \<mapsto> ''$2a$salt$hunter2''])
        (with_form ''acme'' ''other-password'')) =
   (Inr (c_text ''Customer ID already exist'' 409), [''acme'' \<mapsto> ''$2a$salt$hunter2''])"
proof -
  let ?c1 = "sample_ctx (sample_env []) (with_form ''acme'' ''hunter2'')"
  let ?c2 = "sample_ctx (with_accounts (sample_env []) [''acme'' \<mapsto> ''$2a$salt$hunter2''])
     (with_form ''acme'' ''other-password'')"
  have hash: "\<And>pw n s. bcrypt_hash sample_libs pw n s \<noteq> []"
    by (simp add: sample_libs_def)
  have empty: "kv_get (HUZZANDBUZZ_ACCOUNTS (c_env ?c1)) (form_customerId (req_body (c_req ?c1))) =
      Inr None"
    by (simp add: sample_ctx_def sample_env_def with_form_def sample_request_def kv_get_def
        kv_key_ok_def)
  have pw: "form_password (req_body (c_req ?c1)) = Some ''hunter2''"
    by (simp add: sample_ctx_def with_form_def sample_request_def)
  obtain r1 where first: "register sample_libs ?c1 = (Inr r1, [''acme'' \<mapsto> ''$2a$salt$hunter2''])"
    and loc: "location r1 = Some ''/dashboard/config''"
    using register_issues [OF empty pw, of sample_libs]
    by (simp add: sample_ctx_def with_form_def sample_request_def sample_env_def sample_libs_def)
  have accounts: "HUZZANDBUZZ_ACCOUNTS (c_env ?c2) = [''acme'' \<mapsto> ''$2a$salt$hunter2'']"
    by (simp add: sample_ctx_def with_accounts_def sample_env_def)
  have same: "form_customerId (req_body (c_req ?c2)) = form_customerId (req_body (c_req ?c1))"
    by (simp add: sample_ctx_def with_form_def sample_request_def)
  show ?thesis
    using register_twice_conflict [OF hash first loc accounts same] by simp
qed

subsection \<open>What registration and login issue\<close>

text \<open>
  C9 does not hold of login. The token carries \<^verbatim>\<open>exp\<close> = issuance (in whole seconds)
  + 86400 and the cookie is http-only, but \<^verbatim>\<open>setCookie(c, 'jwt', token, { httpOnly: true })\<close>
  gives the cookie neither \<^verbatim>\<open>maxAge\<close> nor \<^verbatim>\<open>expires\<close>, where registration
  (\<open>register_issues\<close>) gives it \<^verbatim>\<open>maxAge: 24 * 60 * 60\<close>.
\<close>

theorem login_cookie_without_expiry:
  assumes "kv_get (HUZZANDBUZZ_ACCOUNTS (c_env c)) (form_customerId (req_body (c_req c))) = Inr (Some h)"
    and "form_password (req_body (c_req c)) = Some pw"
    and "bcrypt_compare L pw h"
  shows "login L c =
    Inr \<lparr>status = 302, body = EmptyBody, location = Some ''/dashboard/'',
       set_cookies =
         [\<lparr>cookie_name = ''jwt'',
           cookie_value = jwt_sign L
             [(''customerId'', JStr (form_customerId (req_body (c_req c)))),
              (''exp'', JNum (Fin (of_nat (now_ms (c_req c) div 1000 + 86400))))]
             (JWT_SECRET_KEY (c_env c)),
           httpOnly = True, maxAge = None, expires = None, secure = False,
           sameSite = None, path = Some ''/''\<rparr>]\<rparr>"
  using assms by (simp add: login_def or_null_def to_js_def bindE_def setCookie_def c_redirect_def)

theorem login_cookie_without_expiry_witness:
  "map maxAge (set_cookies (respond (login sample_libs
     (sample_ctx (with_accounts (sample_env []) [''acme'' \<mapsto> ''$2a$salt$hunter2''])
        (with_form ''acme'' ''hunter2''))))) = [None] \<and>
   map expires (set_cookies (respond (login sample_libs
     (sample_ctx (with_accounts (sample_env []) [''acme'' \<mapsto> ''$2a$salt$hunter2''])
        (with_form ''acme'' ''hunter2''))))) = [None]"
proof -
  let ?c = "sample_ctx (with_accounts (sample_env []) [''acme'' \<mapsto> ''$2a$salt$hunter2''])
     (with_form ''acme'' ''hunter2'')"
  have stored: "kv_get (HUZZANDBUZZ_ACCOUNTS (c_env ?c)) (form_customerId (req_body (c_req ?c))) =
      Inr (Some ''$2a$salt$hunter2'')"
    by (simp add: sample_ctx_def with_accounts_def sample_env_def with_form_def
        sample_request_def kv_get_def kv_key_ok_def)
  have pw: "form_password (req_body (c_req ?c)) = Some ''hunter2''"
    by (simp add: sample_ctx_def with_form_def sample_request_def)
  have ok: "bcrypt_compare sample_libs ''hunter2'' ''$2a$salt$hunter2''"
    by (simp add: sample_libs_def)
  show ?thesis
    using login_cookie_without_expiry [OF stored pw ok] by (simp add: respond_def)
qed

subsection \<open>The overview page of a tenant without reports\<close>

lemma expected_params_overview: "expected_params overview_sql = 1"
  by (simp add: expected_params_def overview_sql_def is_digit_def digit_val_def)

lemma expected_params_overview_coalesce: "expected_params overview_sql_coalesce = 1"
  by (simp add: expected_params_def overview_sql_coalesce_def is_digit_def digit_val_def)

lemma overview_sql_distinct: "overview_sql \<noteq> overview_sql_coalesce"
  by (simp add: overview_sql_def overview_sql_coalesce_def)

lemma fetchData_overview:
  "DB env = d1_sqlite tbl \<Longrightarrow> fetchData env overview_sql (Some [p]) = Inr (select_overview tbl p)"
  by (simp add: fetchData_def fetchData_try_def try_catch_def bindE_def d1_sqlite_def
      expected_params_overview)

lemma fetchData_overview_coalesce:
  "DB env = d1_sqlite tbl \<Longrightarrow>
   fetchData env overview_sql_coalesce (Some [p]) = Inr (select_overview_coalesce tbl p)"
  using overview_sql_distinct
  by (simp add: fetchData_def fetchData_try_def try_catch_def bindE_def d1_sqlite_def
      expected_params_overview_coalesce)

lemma matching_empty: "\<forall>r \<in> set tbl. customer_id r \<noteq> cid \<Longrightarrow> matching tbl (JStr cid) = []"
  by (simp add: matching_def filter_empty_conv)

text \<open>
  C5 does not hold of the first revisions. For a tenant without a row in
  \<^verbatim>\<open>dmarc_reports\<close> the aggregate statement still yields one row, whose
  \<^verbatim>\<open>success_rate\<close> is NULL; the list is not empty, the fallback object is not used,
  \<^verbatim>\<open>statsObj.success_rate.toFixed(1)\<close> throws, and the answer is the generic error page
  with status 500.
\<close>

theorem overview_fails_without_matching_rows:
  assumes "DB (c_env c) = d1_sqlite tbl" and "c_get c ''customerId'' = JStr cid"
    and "\<forall>r \<in> set tbl. customer_id r \<noteq> cid"
  shows "dispatch overview c = (c_html ErrorContent 500, [(overview_sql, Some [JStr cid])])"
  using assms
  by (simp add: dispatch_def overview_def fetchData_overview select_overview_def matching_empty
      bindE_def stat_cards_def field_def count_col_def onError_def)

theorem overview_fails_without_matching_rows_witness:
  "auth_token (sample_ctx (sample_env [other_report]) (with_query ''customer'' ''acme''))
     (dispatch overview) =
   (c_html ErrorContent 500, [(overview_sql, Some [JStr ''acme''])])"
proof -
  let ?c = "sample_ctx (sample_env [other_report]) (with_query ''customer'' ''acme'')"
  let ?c' = "c_set ?c ''customerId'' (JStr ''acme'')"
  have db: "DB (c_env ?c') = d1_sqlite [other_report]"
    by (simp add: c_set_def sample_ctx_def sample_env_def)
  have tenant: "c_get ?c' ''customerId'' = JStr ''acme''"
    by (rule c_get_c_set)
  have none: "\<forall>r \<in> set [other_report]. customer_id r \<noteq> ''acme''"
    by (simp add: other_report_def)
  have "auth_token ?c (dispatch overview) = dispatch overview ?c'"
    by (simp add: auth_token_cases sample_ctx_def sample_env_def with_query_def
        sample_request_def kv_get_def kv_key_ok_def or_null_def)
  then show ?thesis
    using overview_fails_without_matching_rows [OF db tenant none] by simp
qed

text \<open>
  The third revision (COALESCE and NULLIF in the statement) renders the four zeros, and
  so do both revisions when the database fails and \<^verbatim>\<open>fetchData\<close> returns no row.
\<close>

lemma overview_coalesce_zero:
  assumes "DB (c_env c) = d1_sqlite tbl" and "c_get c ''customerId'' = JStr cid"
    and "\<forall>r \<in> set tbl. customer_id r \<noteq> cid"
  shows "dispatch overview_coalesce c =
    (c_html (StatCards [LocaleNum (Fin 0), LocaleNum (Fin 0), LocaleNum (Fin 0), Fixed 1 0]) 200,
     [(overview_sql_coalesce, Some [JStr cid])])"
  using assms
  by (simp add: dispatch_def overview_coalesce_def fetchData_overview_coalesce
      select_overview_coalesce_def matching_empty
      bindE_def stat_cards_def field_def count_col_def onError_def)

lemma overview_zero_on_no_rows:
  assumes "fetchData (c_env c) overview_sql (Some [c_get c ''customerId'']) = Inr []"
  shows "fst (dispatch overview c) =
    c_html (StatCards [LocaleNum (Fin 0), LocaleNum (Fin 0), LocaleNum (Fin 0), Fixed 1 0]) 200"
  using assms
  by (simp add: dispatch_def overview_def bindE_def stat_cards_def field_def zero_stats_def)

subsection \<open>The pass rate of the domain summary\<close>








subsection \<open>Geolocation lookups\<close>

lemma getLocationData_total: "\<exists>v. getLocationData R fetch ip = Inr v"
  by (auto simp: getLocationData_def try_catch_def bindE_def split: sum.splits)

lemma location_url_inj: "location_url R a = location_url R b \<longleftrightarrow> to_string R a = to_string R b"
  by (simp add: location_url_def)

lemma getLocationData_other:
  "to_string R other \<noteq> to_string R ip \<Longrightarrow>
   getLocationData R (fetch(location_url R other := outcome)) ip = getLocationData R fetch ip"
  by (simp add: getLocationData_def location_url_inj)

lemma geo_batch:
  "\<exists>locs. length locs = length data \<and>
     (\<forall>i < length data. getLocationData R fetch (field (data ! i) ''source_ip'') = Inr (locs ! i)) \<and>
     promise_all (map (geo_entry R fetch) data) =
       Inr (map (\<lambda>(row, loc). [(''ip'', field row ''source_ip''), (''total'', field row ''total''),
              (''location'', loc)]) (zip data locs))"
proof (induction data)
  case Nil
  show ?case by simp
next
  case (Cons row data)
  obtain loc where loc: "getLocationData R fetch (field row ''source_ip'') = Inr loc"
    using getLocationData_total by blast
  from Cons obtain locs where locs: "length locs = length data"
    "\<forall>i < length data. getLocationData R fetch (field (data ! i) ''source_ip'') = Inr (locs ! i)"
    "promise_all (map (geo_entry R fetch) data) =
       Inr (map (\<lambda>(row, loc). [(''ip'', field row ''source_ip''), (''total'', field row ''total''),
              (''location'', loc)]) (zip data locs))"
    by blast
  have "\<forall>i < length (row # data).
      getLocationData R fetch (field ((row # data) ! i) ''source_ip'') = Inr ((loc # locs) ! i)"
    using loc locs(2) by (auto simp: nth_Cons split: nat.splits)
  moreover have "promise_all (map (geo_entry R fetch) (row # data)) =
       Inr (map (\<lambda>(row, loc). [(''ip'', field row ''source_ip''), (''total'', field row ''total''),
              (''location'', loc)]) (zip (row # data) (loc # locs)))"
    using loc locs(3) by (simp add: geo_entry_def bindE_def)
  ultimately show ?case using locs(1)
    by (intro exI [of _ "loc # locs"]) simp
qed

lemma geo_distribution_page:
  assumes "fetchData (c_env c) geo_sql (Some [c_get c ''customerId'']) = Inr data"
  shows "\<exists>locs. length locs = length data \<and>
     (\<forall>i < length data. getLocationData R fetch (field (data ! i) ''source_ip'') = Inr (locs ! i)) \<and>
     dispatch (geo_distribution R fetch) c =
       (c_html (TableContent (map (\<lambda>(row, loc).
           [Val (field row ''source_ip''), Val (field row ''total''), Val loc]) (zip data locs))) 200,
        [(geo_sql, Some [c_get c ''customerId''])])"
proof -
  from geo_batch [of data R fetch] obtain locs where locs: "length locs = length data"
    "\<forall>i < length data. getLocationData R fetch (field (data ! i) ''source_ip'') = Inr (locs ! i)"
    "promise_all (map (geo_entry R fetch) data) =
       Inr (map (\<lambda>(row, loc). [(''ip'', field row ''source_ip''), (''total'', field row ''total''),
              (''location'', loc)]) (zip data locs))"
    by blast
  have "dispatch (geo_distribution R fetch) c =
       (c_html (TableContent (map (\<lambda>(row, loc).
           [Val (field row ''source_ip''), Val (field row ''total''), Val loc]) (zip data locs))) 200,
        [(geo_sql, Some [c_get c ''customerId''])])"
    using assms locs(3)
    by (simp add: dispatch_def geo_distribution_def bindE_def field_def split_def comp_def)
  with locs(1,2) show ?thesis by blast
qed

text \<open>
  C8. A lookup whose \<^verbatim>\<open>fetch\<close> rejects (network error, timeout) or whose response is
  not \<^verbatim>\<open>ok\<close> gives the location \<^verbatim>\<open>'Unknown'\<close>. The handler sends its one statement
  and answers a normal page with one table row per result row, in order: the address,
  the total and the location that the lookup of that address gave. In a world that
  differs in the outcome of the lookup of one address, the page has the same rows for
  every other address.
\<close>

theorem geo_lookup_failures_isolated:
  "(\<forall>e. fetch (location_url R ip) = Inl e \<longrightarrow> getLocationData R fetch ip = Inr (JStr ''Unknown'')) \<and>
   (\<forall>resp. fetch (location_url R ip) = Inr resp \<and> \<not> resp_ok resp \<longrightarrow>
      getLocationData R fetch ip = Inr (JStr ''Unknown'')) \<and>
   (\<exists>data locs.
      fetchData (c_env c) geo_sql (Some [c_get c ''customerId'']) = Inr data \<and>
      length locs = length data \<and>
      (\<forall>i < length data. getLocationData R fetch (field (data ! i) ''source_ip'') = Inr (locs ! i)) \<and>
      dispatch (geo_distribution R fetch) c =
        (c_html (TableContent (map (\<lambda>(row, loc).
            [Val (field row ''source_ip''), Val (field row ''total''), Val loc]) (zip data locs))) 200,
         [(geo_sql, Some [c_get c ''customerId''])]) \<and>
      (\<forall>other outcome. \<exists>locs'.
         length locs' = length data \<and>
         dispatch (geo_distribution R (fetch(location_url R other := outcome))) c =
           (c_html (TableContent (map (\<lambda>(row, loc).
               [Val (field row ''source_ip''), Val (field row ''total''), Val loc]) (zip data locs'))) 200,
            [(geo_sql, Some [c_get c ''customerId''])]) \<and>
         (\<forall>i < length data.
            to_string R other \<noteq> to_string R (field (data ! i) ''source_ip'') \<longrightarrow>
            locs' ! i = locs ! i)))"
proof -
  obtain data where
    data: "fetchData (c_env c) geo_sql (Some [c_get c ''customerId'']) = Inr data"
    using fetchData_total by blast
  from geo_distribution_page [OF data, of R fetch] obtain locs where locs:
    "length locs = length data"
    "\<forall>i < length data. getLocationData R fetch (field (data ! i) ''source_ip'') = Inr (locs ! i)"
    "dispatch (geo_distribution R fetch) c =
        (c_html (TableContent (map (\<lambda>(row, loc).
            [Val (field row ''source_ip''), Val (field row ''total''), Val loc]) (zip data locs))) 200,
         [(geo_sql, Some [c_get c ''customerId''])])"
    by blast
  have isolated: "\<exists>locs'. length locs' = length data \<and>
         dispatch (geo_distribution R (fetch(location_url R other := outcome))) c =
           (c_html (TableContent (map (\<lambda>(row, loc).
               [Val (field row ''source_ip''), Val (field row ''total''), Val loc]) (zip data locs'))) 200,
            [(geo_sql, Some [c_get c ''customerId''])]) \<and>
         (\<forall>i < length data.
            to_string R other \<noteq> to_string R (field (data ! i) ''source_ip'') \<longrightarrow>
            locs' ! i = locs ! i)" for other outcome
  proof -
    from geo_distribution_page [OF data, of R "fetch(location_url R other := outcome)"]
    obtain locs' where locs': "length locs' = length data"
      "\<forall>i < length data. getLocationData R (fetch(location_url R other := outcome))
          (field (data ! i) ''source_ip'') = Inr (locs' ! i)"
      "dispatch (geo_distribution R (fetch(location_url R other := outcome))) c =
        (c_html (TableContent (map (\<lambda>(row, loc).
            [Val (field row ''source_ip''), Val (field row ''total''), Val loc]) (zip data locs'))) 200,
         [(geo_sql, Some [c_get c ''customerId''])])"
      by blast
    have "\<forall>i < length data.
        to_string R other \<noteq> to_string R (field (data ! i) ''source_ip'') \<longrightarrow> locs' ! i = locs ! i"
    proof (intro allI impI)
      fix i
      assume i: "i < length data"
        and other: "to_string R other \<noteq> to_string R (field (data ! i) ''source_ip'')"
      from locs'(2) i getLocationData_other [OF other, of fetch outcome]
      have "getLocationData R fetch (field (data ! i) ''source_ip'') = Inr (locs' ! i)"
        by simp
      with locs(2) i show "locs' ! i = locs ! i" by simp
    qed
    with locs'(1,3) show ?thesis by blast
  qed
  have "(\<forall>e. fetch (location_url R ip) = Inl e \<longrightarrow> getLocationData R fetch ip = Inr (JStr ''Unknown''))"
    and "(\<forall>resp. fetch (location_url R ip) = Inr resp \<and> \<not> resp_ok resp \<longrightarrow>
      getLocationData R fetch ip = Inr (JStr ''Unknown''))"
    by (simp_all add: getLocationData_def try_catch_def bindE_def)
  with data locs isolated show ?thesis by blast
qed

lemma list_of_three: "length xs = 3 \<Longrightarrow> xs = [xs ! 0, xs ! 1, xs ! 2]"
  by (auto simp: length_Suc_conv numeral_3_eq_3)

theorem geo_lookup_failures_isolated_witness:
  "dispatch (geo_distribution sample_runtime sample_fetch)
     (sample_ctx (env_of (constant_db three_ips)) sample_request) =
   (c_html (TableContent
      [[Val (JStr ''192.0.2.1''), Val (JNum (Fin 1)), Val (JStr ''Unknown'')],
       [Val (JStr ''203.0.113.9''), Val (JNum (Fin 1)), Val (JStr ''Unknown'')],
       [Val (JStr ''198.51.100.7''), Val (JNum (Fin 1)), Val (JStr ''Norway'')]]) 200,
    [(geo_sql, Some [JUndefined])])"
proof -
  let ?c = "sample_ctx (env_of (constant_db three_ips)) sample_request"
  have tenant: "c_get ?c ''customerId'' = JUndefined"
    by (simp add: c_get_def sample_ctx_def)
  have env: "c_env ?c = env_of (constant_db three_ips)"
    by (simp add: sample_ctx_def)
  from geo_lookup_failures_isolated [of sample_fetch sample_runtime JNull ?c]
  obtain data locs where
    data: "fetchData (c_env ?c) geo_sql (Some [c_get ?c ''customerId'']) = Inr data"
    and len: "length locs = length data"
    and each: "\<forall>i < length data.
       getLocationData sample_runtime sample_fetch (field (data ! i) ''source_ip'') = Inr (locs ! i)"
    and page: "dispatch (geo_distribution sample_runtime sample_fetch) ?c =
        (c_html (TableContent (map (\<lambda>(row, loc).
            [Val (field row ''source_ip''), Val (field row ''total''), Val loc]) (zip data locs))) 200,
         [(geo_sql, Some [c_get ?c ''customerId''])])"
    by blast
  from data have d: "data = three_ips"
    by (simp add: env fetchData_constant_db)
  have l0: "locs ! 0 = JStr ''Unknown''"
    using each [rule_format, of 0]
    by (simp add: d three_ips_def ip_row_def field_def getLocationData_def try_catch_def bindE_def
        location_url_def sample_fetch_def)
  have l1: "locs ! 1 = JStr ''Unknown''"
    using each [rule_format, of 1]
    by (simp add: d three_ips_def ip_row_def field_def getLocationData_def try_catch_def bindE_def
        location_url_def sample_fetch_def)
  have l2: "locs ! 2 = JStr ''Norway''"
    using each [rule_format, of 2]
    by (simp add: d three_ips_def ip_row_def field_def getLocationData_def try_catch_def bindE_def
        location_url_def sample_fetch_def)
  from len d have "length locs = 3"
    by (simp add: three_ips_def)
  then have "locs = [JStr ''Unknown'', JStr ''Unknown'', JStr ''Norway'']"
    using list_of_three [of locs] l0 l1 l2 by simp
  with page d tenant show ?thesis
    by (simp add: three_ips_def ip_row_def field_def)
qed


subsection \<open>Filters of the detailed reports\<close>

lemma detailed_query_gap:
  assumes "(endDate \<noteq> [] \<and> startDate = []) \<or> (domain \<noteq> [] \<and> (startDate = [] \<or> endDate = []))"
  shows "length (snd (detailed_query R cid startDate endDate domain)) <
       expected_params (fst (detailed_query R cid startDate endDate domain)) \<and>
     expected_params (fst (detailed_query R cid startDate endDate domain)) \<in> {3, 4}"
  using assms
  by (cases "startDate = []"; cases "endDate = []"; cases "domain = []")
    (simp_all add: detailed_query_def detailed_sql_def expected_params_def
      is_digit_def digit_val_def)

lemma detailed_query_v1_gap:
  assumes "(endDate \<noteq> [] \<and> startDate = []) \<or> (domain \<noteq> [] \<and> (startDate = [] \<or> endDate = []))"
  shows "length (snd (detailed_query_v1 R cid startDate endDate domain)) <
       expected_params (fst (detailed_query_v1 R cid startDate endDate domain)) \<and>
     expected_params (fst (detailed_query_v1 R cid startDate endDate domain)) \<in> {3, 4}"
  using assms
  by (cases "startDate = []"; cases "endDate = []"; cases "domain = []")
    (simp_all add: detailed_query_v1_def detailed_sql_v1_def expected_params_def
      is_digit_def digit_val_def)

lemma detailed_reports_on_error:
  assumes "detailed_query R (c_get c ''customerId'') (query_or_empty (c_req c) ''start'')
      (query_or_empty (c_req c) ''end'') (query_or_empty (c_req c) ''domain'') = (q, ps)"
    and "fetchData_try (c_env c) q (Some ps) = Inl err"
  shows "dispatch (detailed_reports R) c = (c_html (TableContent []) 200, [(q, Some ps)])"
  using assms fetchData_on_error [OF assms(2)]
  by (simp add: dispatch_def detailed_reports_def bindE_def)

lemma detailed_reports_v1_on_error:
  assumes "detailed_query_v1 R (c_get c ''customerId'') (query_or_empty (c_req c) ''start'')
      (query_or_empty (c_req c) ''end'') (query_or_empty (c_req c) ''domain'') = (q, ps)"
    and "fetchData_try (c_env c) q (Some ps) = Inl err"
  shows "dispatch (detailed_reports_v1 R) c = (c_html (TableContent []) 200, [(q, Some ps)])"
  using assms fetchData_on_error [OF assms(2)]
  by (simp add: dispatch_def detailed_reports_v1_def bindE_def)

text \<open>
  C10. Take a request to the detailed reports that gives \<^verbatim>\<open>end\<close> without \<^verbatim>\<open>start\<close>, or
  \<^verbatim>\<open>domain\<close> without both \<^verbatim>\<open>start\<close> and \<^verbatim>\<open>end\<close>. The statement \<open>q\<close> built for it names
  \<^verbatim>\<open>?3\<close> or \<^verbatim>\<open>?4\<close> as its highest parameter and the list \<open>ps\<close> bound to it is shorter.
  On a database that refuses to run this statement with fewer values than it expects
  (as D1 does), \<^verbatim>\<open>fetchData\<close> takes its error path and returns no rows, and the handler,
  having sent exactly this statement, answers a normal page with an empty table. This
  holds of both constructions.
\<close>

theorem detailed_reports_later_filter_alone:
  assumes filters: "startDate = query_or_empty (c_req c) ''start''"
      "endDate = query_or_empty (c_req c) ''end''"
      "domain = query_or_empty (c_req c) ''domain''"
    and later: "(endDate \<noteq> [] \<and> startDate = []) \<or> (domain \<noteq> [] \<and> (startDate = [] \<or> endDate = []))"
    and built: "detailed_query R (c_get c ''customerId'') startDate endDate domain = (q, ps)"
    and built1: "detailed_query_v1 R (c_get c ''customerId'') startDate endDate domain = (q1, ps1)"
    and strict: "length ps < expected_params q \<Longrightarrow> \<exists>err. fetchData_try (c_env c) q (Some ps) = Inl err"
    and strict1: "length ps1 < expected_params q1 \<Longrightarrow>
      \<exists>err. fetchData_try (c_env c) q1 (Some ps1) = Inl err"
  shows "length ps < expected_params q \<and> expected_params q \<in> {3, 4} \<and>
     fetchData (c_env c) q (Some ps) = Inr [] \<and>
     dispatch (detailed_reports R) c = (c_html (TableContent []) 200, [(q, Some ps)]) \<and>
     length ps1 < expected_params q1 \<and> expected_params q1 \<in> {3, 4} \<and>
     fetchData (c_env c) q1 (Some ps1) = Inr [] \<and>
     dispatch (detailed_reports_v1 R) c = (c_html (TableContent []) 200, [(q1, Some ps1)])"
proof -
  have gap: "length ps < expected_params q \<and> expected_params q \<in> {3, 4}"
    using detailed_query_gap [OF later, of R "c_get c ''customerId''"] built by simp
  have gap1: "length ps1 < expected_params q1 \<and> expected_params q1 \<in> {3, 4}"
    using detailed_query_v1_gap [OF later, of R "c_get c ''customerId''"] built1 by simp
  from gap strict obtain err where err: "fetchData_try (c_env c) q (Some ps) = Inl err"
    by blast
  from gap1 strict1 obtain err1 where err1: "fetchData_try (c_env c) q1 (Some ps1) = Inl err1"
    by blast
  have page: "dispatch (detailed_reports R) c = (c_html (TableContent []) 200, [(q, Some ps)])"
    using built err by (intro detailed_reports_on_error) (simp_all add: filters)
  have page1: "dispatch (detailed_reports_v1 R) c = (c_html (TableContent []) 200, [(q1, Some ps1)])"
    using built1 err1 by (intro detailed_reports_v1_on_error) (simp_all add: filters)
  from gap gap1 page page1 fetchData_on_error [OF err] fetchData_on_error [OF err1]
  show ?thesis by simp
qed

lemma d1_counting_strict:
  assumes "DB env = d1_counting rs" and "length ps \<noteq> expected_params q"
  shows "fetchData_try env q (Some ps) = Inl DatabaseError"
  using assms by (simp add: fetchData_try_def bindE_def d1_counting_def)

lemma d1_counting_answers:
  assumes "DB env = d1_counting rs" and "length ps = expected_params q"
  shows "fetchData env q (Some ps) = Inr rs"
  using assms by (simp add: fetchData_def try_catch_def fetchData_try_def bindE_def d1_counting_def)

theorem detailed_reports_later_filter_alone_witness:
  "dispatch (detailed_reports sample_runtime)
     (c_set (sample_ctx (counting_env [sample_detail_row]) (with_query ''end'' ''2024-01-01''))
        ''customerId'' (JStr ''acme'')) =
   (c_html (TableContent []) 200,
    [(detailed_sql @ '' AND date_range_end <= ?3'' @ '' ORDER BY date_range_begin DESC LIMIT 1000'',
      Some [JStr ''acme'', unix_seconds sample_runtime ''2024-01-01''])]) \<and>
   dispatch (detailed_reports_v1 sample_runtime)
     (c_set (sample_ctx (counting_env [sample_detail_row]) (with_query ''end'' ''2024-01-01''))
        ''customerId'' (JStr ''acme'')) =
   (c_html (TableContent []) 200,
    [(detailed_sql_v1 @ '' AND date_range_begin <= ?3'' @ '' ORDER BY date_range_begin DESC LIMIT 1000'',
      Some [JStr ''acme'', unix_seconds sample_runtime ''2024-01-01''])]) \<and>
   fst (dispatch (detailed_reports sample_runtime)
     (c_set (sample_ctx (counting_env [sample_detail_row]) sample_request)
        ''customerId'' (JStr ''acme''))) =
   c_html (TableContent [detailed_row sample_runtime sample_detail_row]) 200"
proof -
  let ?c = "c_set (sample_ctx (counting_env [sample_detail_row]) (with_query ''end'' ''2024-01-01''))
     ''customerId'' (JStr ''acme'')"
  let ?all = "c_set (sample_ctx (counting_env [sample_detail_row]) sample_request)
     ''customerId'' (JStr ''acme'')"
  let ?q = "detailed_sql @ '' AND date_range_end <= ?3'' @ '' ORDER BY date_range_begin DESC LIMIT 1000''"
  let ?q1 = "detailed_sql_v1 @ '' AND date_range_begin <= ?3'' @ '' ORDER BY date_range_begin DESC LIMIT 1000''"
  let ?ps = "[JStr ''acme'', unix_seconds sample_runtime ''2024-01-01'']"
  have db: "DB (c_env ?c) = d1_counting [sample_detail_row]"
    by (simp add: c_set_def sample_ctx_def counting_env_def)
  have start: "[] = query_or_empty (c_req ?c) ''start''"
    and end_: "''2024-01-01'' = query_or_empty (c_req ?c) ''end''"
    and dom: "[] = query_or_empty (c_req ?c) ''domain''"
    by (simp_all add: query_or_empty_def c_set_def sample_ctx_def with_query_def sample_request_def)
  have later: "(''2024-01-01'' \<noteq> [] \<and> ([]::string) = []) \<or>
      (([]::string) \<noteq> [] \<and> (([]::string) = [] \<or> ''2024-01-01'' = []))"
    by simp
  have built: "detailed_query sample_runtime (c_get ?c ''customerId'') [] ''2024-01-01'' [] = (?q, ?ps)"
    by (simp add: detailed_query_def c_get_c_set)
  have built1: "detailed_query_v1 sample_runtime (c_get ?c ''customerId'') [] ''2024-01-01'' [] = (?q1, ?ps)"
    by (simp add: detailed_query_v1_def c_get_c_set)
  have strict: "length ?ps < expected_params ?q \<Longrightarrow>
      \<exists>err. fetchData_try (c_env ?c) ?q (Some ?ps) = Inl err"
    using d1_counting_strict [OF db, of ?ps ?q] by auto
  have strict1: "length ?ps < expected_params ?q1 \<Longrightarrow>
      \<exists>err. fetchData_try (c_env ?c) ?q1 (Some ?ps) = Inl err"
    using d1_counting_strict [OF db, of ?ps ?q1] by auto
  note filtered = detailed_reports_later_filter_alone
    [OF start end_ dom later built built1 strict strict1]
  have db_all: "DB (c_env ?all) = d1_counting [sample_detail_row]"
    by (simp add: c_set_def sample_ctx_def counting_env_def)
  have one: "expected_params (detailed_sql @ '' ORDER BY date_range_begin DESC LIMIT 1000'') = 1"
    by (simp add: detailed_sql_def expected_params_def is_digit_def digit_val_def)
  have "fetchData (c_env ?all) (detailed_sql @ '' ORDER BY date_range_begin DESC LIMIT 1000'')
      (Some [JStr ''acme'']) = Inr [sample_detail_row]"
    by (rule d1_counting_answers [OF db_all]) (simp add: one)
  then have "fst (dispatch (detailed_reports sample_runtime) ?all) =
      c_html (TableContent [detailed_row sample_runtime sample_detail_row]) 200"
    by (simp add: dispatch_def detailed_reports_def detailed_query_def query_or_empty_def
        c_get_c_set c_set_def sample_ctx_def sample_request_def bindE_def c_get_def)
  with filtered show ?thesis by simp
qed

end
